theory Spec2Isabelle
  imports Complex_Main
begin

section \<open>HeartGuard: record store, statistics, threshold checks and CSV export\<close>

text \<open>
  A shallow embedding of \<^verbatim>\<open>src/services/storageService.js\<close>, of the two threshold
  checks of \<^verbatim>\<open>src/services/healthService.js\<close> and of \<^verbatim>\<open>convertToCSV\<close> of the
  settings screen.

  Conventions of the embedding:
  \<^item> a JavaScript number is an exact rational, extended by the three special values that
    a division by zero produces (\<open>Infinity\<close>, \<open>-Infinity\<close>, \<open>NaN\<close>); the rounding of
    IEEE doubles is not modelled;
  \<^item> an epoch time in milliseconds is an \<open>int\<close>; every reading of the clock
    (\<^verbatim>\<open>Date.now()\<close>, \<^verbatim>\<open>new Date()\<close>) is an argument of the operation that reads it,
    in the order of the calls;
  \<^item> \<^verbatim>\<open>AsyncStorage\<close> holds the four items of \<^verbatim>\<open>STORAGE_KEYS\<close>; an item is kept as
    the value that \<^verbatim>\<open>JSON.parse\<close> yields for its text, an absent item is \<open>None\<close>;
  \<^item> a rejected promise (a thrown exception) is \<open>Inl\<close> of a sum type, and every
    \<^verbatim>\<open>try/catch\<close> of the source is a case distinction on it.
\<close>

subsection \<open>Numbers\<close>

datatype number = Fin rat | PosInf | NegInf | NaN

fun js_add :: "number \<Rightarrow> number \<Rightarrow> number" where
  "js_add (Fin a) (Fin b) = Fin (a + b)"
| "js_add NaN _ = NaN"
| "js_add _ NaN = NaN"
| "js_add PosInf NegInf = NaN"
| "js_add NegInf PosInf = NaN"
| "js_add PosInf _ = PosInf"
| "js_add _ PosInf = PosInf"
| "js_add NegInf _ = NegInf"
| "js_add _ NegInf = NegInf"

fun js_neg :: "number \<Rightarrow> number" where
  "js_neg (Fin a) = Fin (- a)"
| "js_neg PosInf = NegInf"
| "js_neg NegInf = PosInf"
| "js_neg NaN = NaN"

definition js_sub :: "number \<Rightarrow> number \<Rightarrow> number" where
  "js_sub x y = js_add x (js_neg y)"

text \<open>\<^verbatim>\<open>x < y\<close>: false as soon as one side is \<open>NaN\<close>.\<close>

fun js_lt :: "number \<Rightarrow> number \<Rightarrow> bool" where
  "js_lt (Fin a) (Fin b) = (a < b)"
| "js_lt NaN _ = False"
| "js_lt _ NaN = False"
| "js_lt NegInf NegInf = False"
| "js_lt NegInf _ = True"
| "js_lt _ NegInf = False"
| "js_lt PosInf _ = False"
| "js_lt _ PosInf = True"

definition js_gt :: "number \<Rightarrow> number \<Rightarrow> bool" where
  "js_gt x y = js_lt y x"

text \<open>\<^verbatim>\<open>x <= y\<close>, used to state properties of results.\<close>

definition js_le :: "number \<Rightarrow> number \<Rightarrow> bool" where
  "js_le x y = (js_lt x y \<or> (x \<noteq> NaN \<and> x = y))"

text \<open>
  \<^verbatim>\<open>a / b\<close> for finite operands, the divisor being a length (never a negative zero):
  a zero divisor raises nothing: it yields \<open>NaN\<close> for \<open>0 / 0\<close> and an infinity otherwise.
\<close>

definition js_div :: "rat \<Rightarrow> rat \<Rightarrow> number" where
  "js_div a b =
     (if b = 0 then (if a = 0 then NaN else if 0 < a then PosInf else NegInf)
      else Fin (a / b))"

text \<open>\<^verbatim>\<open>Math.round\<close>: the nearest integer, a half rounded towards \<open>+Infinity\<close>.\<close>

fun Math_round :: "number \<Rightarrow> number" where
  "Math_round (Fin a) = Fin (of_int \<lfloor>a + 1 / 2\<rfloor>)"
| "Math_round x = x"

text \<open>\<^verbatim>\<open>Math.max(...values)\<close> and \<^verbatim>\<open>Math.min(...values)\<close>; of no argument they are
  \<open>-Infinity\<close> and \<open>Infinity\<close>.\<close>

fun Math_max :: "rat list \<Rightarrow> number" where
  "Math_max [] = NegInf"
| "Math_max (v # vs) = Fin (fold max vs v)"

fun Math_min :: "rat list \<Rightarrow> number" where
  "Math_min [] = PosInf"
| "Math_min (v # vs) = Fin (fold min vs v)"

text \<open>\<^verbatim>\<open>values.reduce((acc, val) => acc + val, 0)\<close>\<close>

definition reduce_sum :: "rat list \<Rightarrow> rat" where
  "reduce_sum vs = foldl (\<lambda>acc v. acc + v) 0 vs"

subsection \<open>Records and the storage\<close>

text \<open>
  A heart-rate record \<^verbatim>\<open>{value, timestamp, date}\<close>. The field \<open>date\<close> holds the
  instant read by \<^verbatim>\<open>new Date()\<close>, which \<^verbatim>\<open>toISOString()\<close> renders.
\<close>

record sample =
  val :: rat
  timestamp :: int
  date :: int

text \<open>
  A health record: the object the caller passes to \<^verbatim>\<open>saveHealthRecord\<close>, any subset of
  its fields present, and the stored object. Each field carries the prefix \<open>h_\<close>:
  \<open>h_timestamp\<close> is its \<^verbatim>\<open>timestamp\<close>, \<open>h_heartRate\<close> its \<^verbatim>\<open>heartRate\<close>.
\<close>

record health_record =
  h_heartRate :: "rat option"
  h_bloodOxygen :: "rat option"
  h_steps :: "rat option"
  h_calories :: "rat option"
  h_distance :: "rat option"
  h_timestamp :: "int option"
  h_date :: "int option"

text \<open>The stored thresholds \<^verbatim>\<open>{min, max, minBloodOxygen}\<close> (the settings screen saves
  \<^verbatim>\<open>{min, max}\<close> only) and the user settings.\<close>

record stored_thresholds =
  th_min :: rat
  th_max :: rat
  th_minBloodOxygen :: "rat option"

record user_settings =
  notifications :: bool
  autoSave :: bool
  theme :: string

datatype storage_key = HEART_RATE_HISTORY | HEALTH_RECORDS | THRESHOLDS | USER_SETTINGS

fun STORAGE_KEYS :: "storage_key \<Rightarrow> string" where
  "STORAGE_KEYS HEART_RATE_HISTORY = ''@HeartGuard:heartRateHistory''"
| "STORAGE_KEYS HEALTH_RECORDS = ''@HeartGuard:healthRecords''"
| "STORAGE_KEYS THRESHOLDS = ''@HeartGuard:thresholds''"
| "STORAGE_KEYS USER_SETTINGS = ''@HeartGuard:userSettings''"

text \<open>
  The storage: one field for the item under each key, and \<open>faults\<close>, the outcomes of
  the coming \<^verbatim>\<open>AsyncStorage\<close> calls in their order (\<open>True\<close>: the call rejects; when
  the list is used up no call rejects). Every call consumes one outcome, and a call that
  rejects leaves the items as they are.
\<close>

record async_storage =
  heartRateHistory :: "sample list option"
  healthRecords :: "health_record list option"
  thresholds :: "stored_thresholds option"
  userSettings :: "user_settings option"
  faults :: "bool list"

datatype error = StorageError

type_synonym 'a outcome = "(error + 'a) \<times> async_storage"

definition next_fault :: "async_storage \<Rightarrow> bool \<times> async_storage" where
  "next_fault s =
     (case faults s of [] \<Rightarrow> (False, s) | b # bs \<Rightarrow> (b, s\<lparr>faults := bs\<rparr>))"

text \<open>\<^verbatim>\<open>AsyncStorage.getItem(key)\<close>, the key given by the selector of its field.\<close>

definition getItem :: "(async_storage \<Rightarrow> 'a option) \<Rightarrow> async_storage \<Rightarrow> 'a option outcome" where
  "getItem item s =
     (case next_fault s of
        (True, s') \<Rightarrow> (Inl StorageError, s')
      | (False, s') \<Rightarrow> (Inr (item s'), s'))"

text \<open>\<^verbatim>\<open>AsyncStorage.setItem(key, JSON.stringify(v))\<close>, the key given by the update of its
  field.\<close>

definition setItem ::
  "(('a option \<Rightarrow> 'a option) \<Rightarrow> async_storage \<Rightarrow> async_storage) \<Rightarrow> 'a \<Rightarrow> async_storage
     \<Rightarrow> unit outcome" where
  "setItem item_update v s =
     (case next_fault s of
        (True, s') \<Rightarrow> (Inl StorageError, s')
      | (False, s') \<Rightarrow> (Inr (), item_update (\<lambda>_. Some v) s'))"

fun removeItem :: "storage_key \<Rightarrow> async_storage \<Rightarrow> async_storage" where
  "removeItem HEART_RATE_HISTORY s = s\<lparr>heartRateHistory := None\<rparr>"
| "removeItem HEALTH_RECORDS s = s\<lparr>healthRecords := None\<rparr>"
| "removeItem THRESHOLDS s = s\<lparr>thresholds := None\<rparr>"
| "removeItem USER_SETTINGS s = s\<lparr>userSettings := None\<rparr>"

text \<open>\<^verbatim>\<open>AsyncStorage.multiRemove(keys)\<close>\<close>

definition multiRemove :: "storage_key list \<Rightarrow> async_storage \<Rightarrow> unit outcome" where
  "multiRemove keys s =
     (case next_fault s of
        (True, s') \<Rightarrow> (Inl StorageError, s')
      | (False, s') \<Rightarrow> (Inr (), fold removeItem keys s'))"

subsection \<open>The storage service\<close>

definition thirty_days :: int where
  "thirty_days = 30 * 24 * 60 * 60 * 1000"

text \<open>\<^verbatim>\<open>getHeartRateHistory()\<close>: the parsed item, \<open>[]\<close> when it is absent, \<open>[]\<close> in the
  \<^verbatim>\<open>catch\<close>.\<close>

definition getHeartRateHistory :: "async_storage \<Rightarrow> sample list outcome" where
  "getHeartRateHistory s =
     (case getItem heartRateHistory s of
        (Inr data, s') \<Rightarrow> (Inr (case data of Some xs \<Rightarrow> xs | None \<Rightarrow> []), s')
      | (Inl e, s') \<Rightarrow> (Inr [], s'))"

definition getHealthRecords :: "async_storage \<Rightarrow> health_record list outcome" where
  "getHealthRecords s =
     (case getItem healthRecords s of
        (Inr data, s') \<Rightarrow> (Inr (case data of Some xs \<Rightarrow> xs | None \<Rightarrow> []), s')
      | (Inl e, s') \<Rightarrow> (Inr [], s'))"

text \<open>
  \<^verbatim>\<open>saveHeartRateRecord(heartRate)\<close>. The clock is read three times: \<open>t_stamp\<close> by
  \<^verbatim>\<open>Date.now()\<close> for the record, \<open>t_date\<close> by \<^verbatim>\<open>new Date()\<close>, and, after the history
  has been read, \<open>t_cut\<close> by \<^verbatim>\<open>Date.now()\<close> for the retention bound.
\<close>

definition saveHeartRateRecord ::
  "rat \<Rightarrow> int \<Rightarrow> int \<Rightarrow> int \<Rightarrow> async_storage \<Rightarrow> bool outcome" where
  "saveHeartRateRecord heartRate t_stamp t_date t_cut s =
     (let record = \<lparr>val = heartRate, timestamp = t_stamp, date = t_date\<rparr> in
      case getHeartRateHistory s of
        (Inl e, s1) \<Rightarrow> (Inr False, s1)
      | (Inr history, s1) \<Rightarrow>
          (let history' = history @ [record];
               thirtyDaysAgo = t_cut - thirty_days;
               filtered = filter (\<lambda>r. timestamp r > thirtyDaysAgo) history'
           in case setItem heartRateHistory_update filtered s1 of
                (Inl e, s2) \<Rightarrow> (Inr False, s2)
              | (Inr _, s2) \<Rightarrow> (Inr True, s2)))"

text \<open>
  \<^verbatim>\<open>saveHealthRecord(record)\<close>: the fields of \<open>record\<close> are copied, then \<open>timestamp\<close>
  and \<open>date\<close> are set. In the filter a record without a timestamp compares
  \<^verbatim>\<open>undefined > thirtyDaysAgo\<close>, which is false.
\<close>

definition saveHealthRecord ::
  "health_record \<Rightarrow> int \<Rightarrow> int \<Rightarrow> int \<Rightarrow> async_storage \<Rightarrow> bool outcome" where
  "saveHealthRecord record t_stamp t_date t_cut s =
     (let fullRecord = record\<lparr>h_timestamp := Some t_stamp, h_date := Some t_date\<rparr> in
      case getHealthRecords s of
        (Inl e, s1) \<Rightarrow> (Inr False, s1)
      | (Inr history, s1) \<Rightarrow>
          (let history' = history @ [fullRecord];
               thirtyDaysAgo = t_cut - thirty_days;
               filtered = filter (\<lambda>r. case h_timestamp r of
                                         Some t \<Rightarrow> t > thirtyDaysAgo | None \<Rightarrow> False) history'
           in case setItem healthRecords_update filtered s1 of
                (Inl e, s2) \<Rightarrow> (Inr False, s2)
              | (Inr _, s2) \<Rightarrow> (Inr True, s2)))"

text \<open>\<^verbatim>\<open>getRecentData(days = 7)\<close>; \<open>now\<close> is read after the history.\<close>

definition getRecentData :: "int option \<Rightarrow> int \<Rightarrow> async_storage \<Rightarrow> sample list outcome" where
  "getRecentData days now s =
     (let d = (case days of None \<Rightarrow> 7 | Some d \<Rightarrow> d) in
      case getHeartRateHistory s of
        (Inl e, s') \<Rightarrow> (Inr [], s')
      | (Inr history, s') \<Rightarrow>
          (let startDate = now - d * 24 * 60 * 60 * 1000
           in (Inr (filter (\<lambda>r. timestamp r > startDate) history), s')))"

text \<open>\<^verbatim>\<open>getTodayData()\<close>; \<open>startOfDay\<close> is the local midnight that
  \<^verbatim>\<open>today.setHours(0, 0, 0, 0)\<close> computes from the clock.\<close>

definition getTodayData :: "int \<Rightarrow> async_storage \<Rightarrow> sample list outcome" where
  "getTodayData startOfDay s =
     (case getHeartRateHistory s of
        (Inl e, s') \<Rightarrow> (Inr [], s')
      | (Inr history, s') \<Rightarrow> (Inr (filter (\<lambda>r. timestamp r \<ge> startOfDay) history), s'))"

definition getDataInRange :: "int \<Rightarrow> int \<Rightarrow> async_storage \<Rightarrow> sample list outcome" where
  "getDataInRange startDate endDate s =
     (case getHeartRateHistory s of
        (Inl e, s') \<Rightarrow> (Inr [], s')
      | (Inr history, s') \<Rightarrow>
          (Inr (filter (\<lambda>r. timestamp r \<ge> startDate \<and> timestamp r \<le> endDate) history), s'))"

definition saveThresholds :: "stored_thresholds \<Rightarrow> async_storage \<Rightarrow> bool outcome" where
  "saveThresholds th s =
     (case setItem thresholds_update th s of
        (Inl e, s') \<Rightarrow> (Inr False, s')
      | (Inr _, s') \<Rightarrow> (Inr True, s'))"

definition default_thresholds :: stored_thresholds where
  "default_thresholds = \<lparr>th_min = 60, th_max = 100, th_minBloodOxygen = Some 95\<rparr>"

definition getThresholds :: "async_storage \<Rightarrow> stored_thresholds outcome" where
  "getThresholds s =
     (case getItem thresholds s of
        (Inr data, s') \<Rightarrow> (Inr (case data of Some th \<Rightarrow> th | None \<Rightarrow> default_thresholds), s')
      | (Inl e, s') \<Rightarrow> (Inr default_thresholds, s'))"

definition saveUserSettings :: "user_settings \<Rightarrow> async_storage \<Rightarrow> bool outcome" where
  "saveUserSettings settings s =
     (case setItem userSettings_update settings s of
        (Inl e, s') \<Rightarrow> (Inr False, s')
      | (Inr _, s') \<Rightarrow> (Inr True, s'))"

definition default_settings :: user_settings where
  "default_settings = \<lparr>notifications = True, autoSave = True, theme = ''light''\<rparr>"

definition getUserSettings :: "async_storage \<Rightarrow> user_settings outcome" where
  "getUserSettings s =
     (case getItem userSettings s of
        (Inr data, s') \<Rightarrow> (Inr (case data of Some st \<Rightarrow> st | None \<Rightarrow> default_settings), s')
      | (Inl e, s') \<Rightarrow> (Inr default_settings, s'))"

definition clearAllData :: "async_storage \<Rightarrow> bool outcome" where
  "clearAllData s =
     (case multiRemove [HEART_RATE_HISTORY, HEALTH_RECORDS] s of
        (Inl e, s') \<Rightarrow> (Inr False, s')
      | (Inr _, s') \<Rightarrow> (Inr True, s'))"

text \<open>The result of \<^verbatim>\<open>getStatistics\<close>; \<open>stat_max\<close> and \<open>stat_min\<close> are its \<^verbatim>\<open>max\<close> and
  \<^verbatim>\<open>min\<close>. The zero state has no \<^verbatim>\<open>firstAvg\<close> and no \<^verbatim>\<open>secondAvg\<close>.\<close>

record statistics =
  average :: number
  stat_max :: number
  stat_min :: number
  count :: nat
  trend :: string
  firstAvg :: "number option"
  secondAvg :: "number option"

definition zero_statistics :: statistics where
  "zero_statistics =
     \<lparr>average = Fin 0, stat_max = Fin 0, stat_min = Fin 0, count = 0, trend = ''stable'',
      firstAvg = None, secondAvg = None\<rparr>"

text \<open>\<^verbatim>\<open>getStatistics(days = 7)\<close>. The two \<^verbatim>\<open>if\<close> statements on \<open>trend\<close> run one after
  the other, the second overwriting the first.\<close>

definition getStatistics :: "int option \<Rightarrow> int \<Rightarrow> async_storage \<Rightarrow> statistics outcome" where
  "getStatistics days now s =
     (case getRecentData days now s of
        (Inl e, s') \<Rightarrow> (Inr zero_statistics, s')
      | (Inr data, s') \<Rightarrow>
          if length data = 0 then (Inr zero_statistics, s')
          else
            (let values = map val data;
                 sum = reduce_sum values;
                 average = Math_round (js_div sum (of_nat (length values)));
                 max = Math_max values;
                 min = Math_min values;
                 mid = length values div 2;
                 firstHalf = take mid values;
                 secondHalf = drop mid values;
                 firstAvg = js_div (reduce_sum firstHalf) (of_nat (length firstHalf));
                 secondAvg = js_div (reduce_sum secondHalf) (of_nat (length secondHalf));
                 trend0 = ''stable'';
                 trend1 = (if js_gt secondAvg (js_add firstAvg (Fin 5)) then ''rising''
                           else trend0);
                 trend2 = (if js_lt secondAvg (js_sub firstAvg (Fin 5)) then ''falling''
                           else trend1)
             in (Inr \<lparr>average = average, stat_max = max, stat_min = min,
                       count = length data, trend = trend2,
                       firstAvg = Some (Math_round firstAvg),
                       secondAvg = Some (Math_round secondAvg)\<rparr>, s')))"

subsection \<open>The platform's formatting\<close>

text \<open>
  The rendering of a number in a template literal and the two \<^verbatim>\<open>en-US\<close> renderings of
  an instant belong to the JavaScript engine, not to the repository: they are parameters.
\<close>

record platform =
  toString :: "rat \<Rightarrow> string"
  toLocaleDateString :: "int \<Rightarrow> string"
  toLocaleTimeString :: "int \<Rightarrow> string"

definition newline :: char where
  "newline = CHR 0x0A"

subsection \<open>The health service: threshold checks\<close>

record health_thresholds =
  minHeartRate :: rat
  maxHeartRate :: rat
  minBloodOxygen :: rat

text \<open>The thresholds the constructor sets.\<close>

definition initial_thresholds :: health_thresholds where
  "initial_thresholds = \<lparr>minHeartRate = 60, maxHeartRate = 100, minBloodOxygen = 95\<rparr>"

record check_result =
  status :: string
  message :: string
  severity :: string


definition checkBloodOxygen :: "platform \<Rightarrow> health_thresholds \<Rightarrow> rat \<Rightarrow> check_result" where
  "checkBloodOxygen p th bloodOxygen =
     (if bloodOxygen < minBloodOxygen th then
        (if bloodOxygen < 90 then
           \<lparr>status = ''critical'',
            message = ''Blood oxygen level is critical ('' @ toString p bloodOxygen @ ''%)''
                        @ [newline] @ ''Seek immediate medical attention'',
            severity = ''danger''\<rparr>
         else
           \<lparr>status = ''low'',
            message = ''Blood oxygen level is low ('' @ toString p bloodOxygen @ ''%)''
                        @ [newline] @ ''Try deep breathing or outdoor activity'',
            severity = ''warning''\<rparr>)
      else
        \<lparr>status = ''normal'', message = ''Blood oxygen level is normal'',
         severity = ''normal''\<rparr>)"

text \<open>\<^verbatim>\<open>updateThresholds(newThresholds)\<close>: the fields present replace the current ones;
  nothing is validated.\<close>

record thresholds_update =
  new_minHeartRate :: "rat option"
  new_maxHeartRate :: "rat option"
  new_minBloodOxygen :: "rat option"

definition updateThresholds :: "thresholds_update \<Rightarrow> health_thresholds \<Rightarrow> health_thresholds" where
  "updateThresholds newThresholds th =
     \<lparr>minHeartRate = (case new_minHeartRate newThresholds of
                        Some v \<Rightarrow> v | None \<Rightarrow> minHeartRate th),
      maxHeartRate = (case new_maxHeartRate newThresholds of
                        Some v \<Rightarrow> v | None \<Rightarrow> maxHeartRate th),
      minBloodOxygen = (case new_minBloodOxygen newThresholds of
                          Some v \<Rightarrow> v | None \<Rightarrow> minBloodOxygen th)\<rparr>"

subsection \<open>The CSV export\<close>

text \<open>\<^verbatim>\<open>rows.join(sep)\<close>\<close>

fun join :: "string \<Rightarrow> string list \<Rightarrow> string" where
  "join sep [] = []"
| "join sep [x] = x"
| "join sep (x # y # ys) = x @ sep @ join sep (y # ys)"

definition csv_row :: "platform \<Rightarrow> sample \<Rightarrow> string" where
  "csv_row p r =
     (let dateStr = toLocaleDateString p (timestamp r);
          timeStr = toLocaleTimeString p (timestamp r)
      in dateStr @ '','' @ timeStr @ '','' @ toString p (val r))"

definition convertToCSV :: "platform \<Rightarrow> sample list \<Rightarrow> string" where
  "convertToCSV p data =
     (let header = ''Date,Time,Heart Rate (BPM)'' @ [newline];
          rows = join [newline] (map (csv_row p) data)
      in header @ rows)"

subsection \<open>The spec's wording of the trend and of the reading back of an export\<close>


text \<open>\<^verbatim>\<open>text.split(c)\<close> for a separator of one character: the pieces between the
  separators, so one piece more than there are separators.\<close>

fun split_on :: "char \<Rightarrow> string \<Rightarrow> string list" where
  "split_on c [] = [[]]"
| "split_on c (x # xs) =
     (if x = c then [] # split_on c xs
      else (case split_on c xs of w # ws \<Rightarrow> (x # w) # ws | [] \<Rightarrow> [[x]]))"

text \<open>
  The repository writes the export and never reads it. The reading back follows the
  spec (three columns, a header and one row per sample, no quoting): the text is cut into
  lines, the header is dropped, and every other line must have exactly three fields.
\<close>

fun spec_parse_row :: "string \<Rightarrow> (string \<times> string \<times> string) option" where
  "spec_parse_row line =
     (case split_on (CHR '','') line of
        [d, t, v] \<Rightarrow> Some (d, t, v)
      | _ \<Rightarrow> None)"

fun spec_parse_rows :: "string list \<Rightarrow> (string \<times> string \<times> string) list option" where
  "spec_parse_rows [] = Some []"
| "spec_parse_rows (l # ls) =
     (case spec_parse_row l of
        None \<Rightarrow> None
      | Some row \<Rightarrow> (case spec_parse_rows ls of None \<Rightarrow> None | Some rows \<Rightarrow> Some (row # rows)))"

definition spec_parseCSV :: "string \<Rightarrow> (string \<times> string \<times> string) list option" where
  "spec_parseCSV text =
     (case split_on newline text of
        [] \<Rightarrow> None
      | header # lines \<Rightarrow> spec_parse_rows lines)"

section \<open>Properties\<close>

subsection \<open>Auxiliary facts\<close>

lemma reduce_sum_eq: "reduce_sum vs = sum_list vs"
proof -
  have "foldl (\<lambda>acc v. acc + v) a vs = a + sum_list vs" for a :: rat
    by (induction vs arbitrary: a) simp_all
  then show ?thesis by (simp add: reduce_sum_def)
qed

lemma getStatistics_nonempty:
  assumes "fst (getRecentData days now s) = Inr data" and "data \<noteq> []"
  shows "fst (getStatistics days now s) =
     Inr (let values = map val data;
            mid = length values div 2;
            firstAvg = js_div (reduce_sum (take mid values)) (of_nat (length (take mid values)));
            secondAvg = js_div (reduce_sum (drop mid values)) (of_nat (length (drop mid values)))
        in \<lparr>average = Math_round (js_div (reduce_sum values) (of_nat (length values))),
            stat_max = Math_max values, stat_min = Math_min values, count = length data,
            trend = (if js_lt secondAvg (js_sub firstAvg (Fin 5)) then ''falling''
                     else if js_gt secondAvg (js_add firstAvg (Fin 5)) then ''rising''
                     else ''stable''),
            firstAvg = Some (Math_round firstAvg), secondAvg = Some (Math_round secondAvg)\<rparr>)"
  using assms
  by (cases "getRecentData days now s") (simp add: getStatistics_def Let_def)

lemma getRecentData_store:
  "fst (getRecentData days now
      \<lparr>heartRateHistory = Some xs, healthRecords = h, thresholds = t, userSettings = u, faults = []\<rparr>)
   = Inr (filter (\<lambda>r. timestamp r > now - (case days of None \<Rightarrow> 7 | Some d \<Rightarrow> d) * 24 * 60 * 60 * 1000) xs)"
  by (simp add: getRecentData_def getHeartRateHistory_def getItem_def next_fault_def)

lemma floor_rat_numeral: "\<lfloor>numeral a / numeral b :: rat\<rfloor> = numeral a div numeral b"
  by (metis floor_divide_of_int_eq of_int_numeral)

lemma Math_max_eq: "vs \<noteq> [] \<Longrightarrow> Math_max vs = Fin (Max (set vs))"
proof (cases vs)
  case Nil
  then show "vs \<noteq> [] \<Longrightarrow> Math_max vs = Fin (Max (set vs))" by simp
next
  case (Cons v ws)
  then show ?thesis using Max.set_eq_fold [of v ws] by simp
qed

lemma Math_min_eq: "vs \<noteq> [] \<Longrightarrow> Math_min vs = Fin (Min (set vs))"
proof (cases vs)
  case Nil
  then show "vs \<noteq> [] \<Longrightarrow> Math_min vs = Fin (Min (set vs))" by simp
next
  case (Cons v ws)
  then show ?thesis using Min.set_eq_fold [of v ws] by simp
qed

lemma sum_list_lower:
  fixes lo :: rat
  shows "\<forall>x\<in>set xs. lo \<le> x \<Longrightarrow> lo * of_nat (length xs) \<le> sum_list xs"
  by (induction xs) (auto simp: algebra_simps)

lemma sum_list_upper:
  fixes hi :: rat
  shows "\<forall>x\<in>set xs. x \<le> hi \<Longrightarrow> sum_list xs \<le> hi * of_nat (length xs)"
  by (induction xs) (auto simp: algebra_simps)

lemma mean_bounds:
  fixes vs :: "rat list"
  assumes "vs \<noteq> []"
  shows "Min (set vs) \<le> sum_list vs / of_nat (length vs)"
    and "sum_list vs / of_nat (length vs) \<le> Max (set vs)"
proof -
  from assms have n: "(0::rat) < of_nat (length vs)" by simp
  have "Min (set vs) * of_nat (length vs) \<le> sum_list vs"
    by (rule sum_list_lower) simp
  with n show "Min (set vs) \<le> sum_list vs / of_nat (length vs)"
    by (simp add: pos_le_divide_eq)
  have "sum_list vs \<le> Max (set vs) * of_nat (length vs)"
    by (rule sum_list_upper) simp
  with n show "sum_list vs / of_nat (length vs) \<le> Max (set vs)"
    by (simp add: pos_divide_le_eq)
qed

lemma round_between_integers:
  fixes m :: rat
  assumes "lo \<in> \<int>" "hi \<in> \<int>" "lo \<le> m" "m \<le> hi"
  shows "lo \<le> of_int \<lfloor>m + 1 / 2\<rfloor>" and "of_int \<lfloor>m + 1 / 2\<rfloor> \<le> hi"
proof -
  from assms(1) obtain a where a: "lo = of_int a" by (auto elim: Ints_cases)
  from assms(2) obtain b where b: "hi = of_int b" by (auto elim: Ints_cases)
  have "a \<le> \<lfloor>m + 1 / 2\<rfloor>" using assms(3) a by (simp add: le_floor_iff)
  then show "lo \<le> of_int \<lfloor>m + 1 / 2\<rfloor>" using a by simp
  have "\<lfloor>m + 1 / 2\<rfloor> \<le> b" using assms(4) b by (simp add: floor_le_iff)
  then show "of_int \<lfloor>m + 1 / 2\<rfloor> \<le> hi" using b by simp
qed

lemma getHeartRateHistory_cases:
  "getHeartRateHistory s =
     (case faults s of
        [] \<Rightarrow> (Inr (case heartRateHistory s of Some xs \<Rightarrow> xs | None \<Rightarrow> []), s)
      | True # fs \<Rightarrow> (Inr [], s\<lparr>faults := fs\<rparr>)
      | False # fs \<Rightarrow> (Inr (case heartRateHistory s of Some xs \<Rightarrow> xs | None \<Rightarrow> []),
                        s\<lparr>faults := fs\<rparr>))"
  by (simp add: getHeartRateHistory_def getItem_def next_fault_def split: list.splits bool.splits)

lemma getHealthRecords_cases:
  "getHealthRecords s =
     (case faults s of
        [] \<Rightarrow> (Inr (case healthRecords s of Some xs \<Rightarrow> xs | None \<Rightarrow> []), s)
      | True # fs \<Rightarrow> (Inr [], s\<lparr>faults := fs\<rparr>)
      | False # fs \<Rightarrow> (Inr (case healthRecords s of Some xs \<Rightarrow> xs | None \<Rightarrow> []),
                        s\<lparr>faults := fs\<rparr>))"
  by (simp add: getHealthRecords_def getItem_def next_fault_def split: list.splits bool.splits)

lemma getHeartRateHistory_subset:
  assumes "fst (getHeartRateHistory s) = Inr ys"
  shows "set ys \<subseteq> (case heartRateHistory s of Some xs \<Rightarrow> set xs | None \<Rightarrow> {})"
  using assms
  by (auto simp: getHeartRateHistory_cases split: list.splits bool.splits option.splits)

lemma getHealthRecords_subset:
  assumes "fst (getHealthRecords s) = Inr ys"
  shows "set ys \<subseteq> (case healthRecords s of Some xs \<Rightarrow> set xs | None \<Rightarrow> {})"
  using assms
  by (auto simp: getHealthRecords_cases split: list.splits bool.splits option.splits)

lemma getRecentData_subset:
  assumes "fst (getRecentData days now s) = Inr ys"
  shows "set ys \<subseteq> (case heartRateHistory s of Some xs \<Rightarrow> set xs | None \<Rightarrow> {})"
proof -
  obtain r s1 where g: "getHeartRateHistory s = (r, s1)" by (cases "getHeartRateHistory s")
  show ?thesis
  proof (cases r)
    case (Inl e)
    with g assms show ?thesis by (simp add: getRecentData_def)
  next
    case (Inr h)
    with g have "set h \<subseteq> (case heartRateHistory s of Some xs \<Rightarrow> set xs | None \<Rightarrow> {})"
      using getHeartRateHistory_subset [of s h] by simp
    with g Inr assms show ?thesis by (auto simp: getRecentData_def Let_def)
  qed
qed

lemma getTodayData_subset:
  assumes "fst (getTodayData startOfDay s) = Inr ys"
  shows "set ys \<subseteq> (case heartRateHistory s of Some xs \<Rightarrow> set xs | None \<Rightarrow> {})"
proof -
  obtain r s1 where g: "getHeartRateHistory s = (r, s1)" by (cases "getHeartRateHistory s")
  show ?thesis
  proof (cases r)
    case (Inl e)
    with g assms show ?thesis by (simp add: getTodayData_def)
  next
    case (Inr h)
    with g have "set h \<subseteq> (case heartRateHistory s of Some xs \<Rightarrow> set xs | None \<Rightarrow> {})"
      using getHeartRateHistory_subset [of s h] by simp
    with g Inr assms show ?thesis by (auto simp: getTodayData_def)
  qed
qed

lemma getDataInRange_subset:
  assumes "fst (getDataInRange startDate endDate s) = Inr ys"
  shows "set ys \<subseteq> (case heartRateHistory s of Some xs \<Rightarrow> set xs | None \<Rightarrow> {})"
proof -
  obtain r s1 where g: "getHeartRateHistory s = (r, s1)" by (cases "getHeartRateHistory s")
  show ?thesis
  proof (cases r)
    case (Inl e)
    with g assms show ?thesis by (simp add: getDataInRange_def)
  next
    case (Inr h)
    with g have "set h \<subseteq> (case heartRateHistory s of Some xs \<Rightarrow> set xs | None \<Rightarrow> {})"
      using getHeartRateHistory_subset [of s h] by simp
    with g Inr assms show ?thesis by (auto simp: getDataInRange_def)
  qed
qed

lemma getHeartRateHistory_Inr: "\<exists>h s1. getHeartRateHistory s = (Inr h, s1)"
  by (simp add: getHeartRateHistory_cases split: list.splits bool.splits)

lemma getHealthRecords_Inr: "\<exists>h s1. getHealthRecords s = (Inr h, s1)"
  by (simp add: getHealthRecords_cases split: list.splits bool.splits)

lemma saveHeartRateRecord_True:
  assumes "saveHeartRateRecord heartRate t_stamp t_date t_cut s = (Inr True, s')"
  shows "\<exists>h. heartRateHistory s' =
           Some (filter (\<lambda>r. t_cut - thirty_days < timestamp r)
                   (h @ [\<lparr>val = heartRate, timestamp = t_stamp, date = t_date\<rparr>]))"
proof -
  from getHeartRateHistory_Inr obtain h s1 where g: "getHeartRateHistory s = (Inr h, s1)"
    by blast
  from assms have "heartRateHistory s' =
           Some (filter (\<lambda>r. t_cut - thirty_days < timestamp r)
                   (h @ [\<lparr>val = heartRate, timestamp = t_stamp, date = t_date\<rparr>]))"
    by (auto simp: saveHeartRateRecord_def g setItem_def next_fault_def Let_def
          split: list.splits bool.splits)
  then show ?thesis ..
qed

lemma saveHealthRecord_True:
  assumes "saveHealthRecord record t_stamp t_date t_cut s = (Inr True, s')"
  shows "\<exists>h. healthRecords s' =
           Some (filter (\<lambda>r. case h_timestamp r of Some t \<Rightarrow> t_cut - thirty_days < t
                                | None \<Rightarrow> False)
                   (h @ [record\<lparr>h_timestamp := Some t_stamp, h_date := Some t_date\<rparr>]))"
proof -
  from getHealthRecords_Inr obtain h s1 where g: "getHealthRecords s = (Inr h, s1)"
    by blast
  from assms have "healthRecords s' =
           Some (filter (\<lambda>r. case h_timestamp r of Some t \<Rightarrow> t_cut - thirty_days < t
                                | None \<Rightarrow> False)
                   (h @ [record\<lparr>h_timestamp := Some t_stamp, h_date := Some t_date\<rparr>]))"
    by (auto simp: saveHealthRecord_def g setItem_def next_fault_def Let_def
          split: list.splits bool.splits)
  then show ?thesis ..
qed

lemma getRecentData_Inr: "\<exists>ys s1. getRecentData days now s = (Inr ys, s1)"
  using getHeartRateHistory_Inr [of s] by (auto simp: getRecentData_def Let_def)

lemma split_on_nonempty: "split_on c xs \<noteq> []"
  by (induction xs) (auto split: list.splits)

lemma split_on_no_separator: "c \<notin> set w \<Longrightarrow> split_on c w = [w]"
  by (induction w) auto

lemma split_on_piece: "c \<notin> set w \<Longrightarrow> split_on c (w @ c # rest) = w # split_on c rest"
  by (induction w) (auto split: list.splits)

lemma split_on_join_Cons:
  "\<forall>l\<in>set (x # xs). c \<notin> set l \<Longrightarrow> split_on c (join [c] (x # xs)) = x # xs"
proof (induction xs arbitrary: x)
  case Nil
  then show ?case by (simp add: split_on_no_separator)
next
  case (Cons y ys)
  then have "split_on c (join [c] (y # ys)) = y # ys" by simp
  with Cons.prems show ?case by (simp add: split_on_piece)
qed

lemma split_on_join:
  assumes "ls \<noteq> []" and "\<forall>l\<in>set ls. c \<notin> set l"
  shows "split_on c (join [c] ls) = ls"
  using assms split_on_join_Cons by (cases ls) blast+

lemma spec_parse_row_fields:
  assumes "CHR '','' \<notin> set d" "CHR '','' \<notin> set t" "CHR '','' \<notin> set v"
  shows "spec_parse_row (d @ '','' @ t @ '','' @ v) = Some (d, t, v)"
  using assms by (simp add: split_on_piece split_on_no_separator)

lemma spec_parse_rows_map:
  assumes "\<forall>r\<in>set data. spec_parse_row (f r) = Some (g r)"
  shows "spec_parse_rows (map f data) = Some (map g data)"
  using assms by (induction data) simp_all

subsection \<open>The trend of the statistics\<close>



subsection \<open>The average lies between the minimum and the maximum\<close>

text \<open>
  C3, as stated, fails: the claim is made for every non-empty list of numeric values, and
  for the single value 70.6 the average is \<open>round(70.6) = 71\<close>, above the maximum 70.6.
\<close>

theorem average_between_min_max_counterexample:
  "fst (getStatistics None 1000
         \<lparr>heartRateHistory = Some [\<lparr>val = 706 / 10, timestamp = 1, date = 1\<rparr>],
          healthRecords = None, thresholds = None, userSettings = None, faults = []\<rparr>)
     = Inr \<lparr>average = Fin 71, stat_max = Fin (706 / 10), stat_min = Fin (706 / 10), count = 1,
            trend = ''stable'', firstAvg = Some NaN, secondAvg = Some (Fin 71)\<rparr>
   \<and> \<not> js_le (Fin 71) (Fin (706 / 10))"
  by (simp add: getStatistics_nonempty [OF getRecentData_store] Let_def reduce_sum_def
        js_div_def js_sub_def js_gt_def js_le_def floor_rat_numeral)

text \<open>
  C3, amended. For every non-empty list of recent samples whose values are integers,
  \<^verbatim>\<open>getStatistics\<close> returns \<open>average = round(mean(values))\<close>, \<open>min\<close> and \<open>max\<close> over all
  the values and \<open>count\<close> the number of samples, with \<open>min \<le> average \<le> max\<close>.
\<close>

theorem average_between_min_max_integers:
  assumes "fst (getRecentData days now s) = Inr data"
    and "data \<noteq> []"
    and "\<forall>r\<in>set data. val r \<in> \<int>"
  shows "\<exists>st. fst (getStatistics days now s) = Inr st
     \<and> average st = Math_round (Fin (sum_list (map val data) / of_nat (length data)))
     \<and> stat_min st = Fin (Min (val ` set data))
     \<and> stat_max st = Fin (Max (val ` set data))
     \<and> count st = length data
     \<and> js_le (stat_min st) (average st) \<and> js_le (average st) (stat_max st)"
proof -
  let ?vs = "map val data"
  let ?m = "sum_list ?vs / of_nat (length ?vs)"
  from assms(2) have ne: "?vs \<noteq> []" by simp
  have fin: "finite (set ?vs)" "set ?vs \<noteq> {}" using ne by simp_all
  have "Min (set ?vs) \<in> set ?vs" using fin by (rule Min_in)
  with assms(3) have lo: "Min (set ?vs) \<in> \<int>" by auto
  have "Max (set ?vs) \<in> set ?vs" using fin by (rule Max_in)
  with assms(3) have hi: "Max (set ?vs) \<in> \<int>" by auto
  note b = round_between_integers [OF lo hi mean_bounds [OF ne]]
  have l: "js_le (Fin (Min (set ?vs))) (Fin (of_int \<lfloor>?m + 1 / 2\<rfloor>))"
    using b(1) by (auto simp: js_le_def)
  have u: "js_le (Fin (of_int \<lfloor>?m + 1 / 2\<rfloor>)) (Fin (Max (set ?vs)))"
    using b(2) by (auto simp: js_le_def)
  have d: "js_div (sum_list ?vs) (of_nat (length ?vs)) = Fin ?m"
    using assms(2) by (simp add: js_div_def)
  show ?thesis
    using l u d ne
    by (simp add: getStatistics_nonempty [OF assms(1) assms(2)] Let_def reduce_sum_eq
          Math_max_eq Math_min_eq)
qed

theorem average_between_min_max_integers_witness:
  "fst (getRecentData None 1000
         \<lparr>heartRateHistory = Some [\<lparr>val = 70, timestamp = 1, date = 1\<rparr>,
                                    \<lparr>val = 75, timestamp = 2, date = 2\<rparr>],
          healthRecords = None, thresholds = None, userSettings = None, faults = []\<rparr>)
     = Inr [\<lparr>val = 70, timestamp = 1, date = 1\<rparr>, \<lparr>val = 75, timestamp = 2, date = 2\<rparr>]
   \<and> [\<lparr>val = 70, timestamp = 1, date = 1\<rparr>, \<lparr>val = 75, timestamp = 2, date = 2\<rparr>] \<noteq> []
   \<and> val \<lparr>val = 70, timestamp = 1, date = 1\<rparr> \<in> \<int>
   \<and> val \<lparr>val = 75, timestamp = 2, date = 2\<rparr> \<in> \<int>
   \<and> (\<exists>st. fst (getStatistics None 1000
         \<lparr>heartRateHistory = Some [\<lparr>val = 70, timestamp = 1, date = 1\<rparr>,
                                    \<lparr>val = 75, timestamp = 2, date = 2\<rparr>],
          healthRecords = None, thresholds = None, userSettings = None, faults = []\<rparr>) = Inr st
        \<and> average st = Fin 73 \<and> stat_min st = Fin 70 \<and> stat_max st = Fin 75
        \<and> js_le (stat_min st) (average st) \<and> js_le (average st) (stat_max st))"
proof -
  let ?d = "[\<lparr>val = 70, timestamp = 1, date = 1\<rparr>, \<lparr>val = 75, timestamp = 2, date = 2\<rparr>]"
  let ?s = "\<lparr>heartRateHistory = Some ?d,
          healthRecords = None, thresholds = None, userSettings = None, faults = []\<rparr>"
  have r: "fst (getRecentData None 1000 ?s) = Inr ?d"
    by (simp add: getRecentData_store)
  have n: "?d \<noteq> []" by simp
  have i: "\<forall>r\<in>set ?d. val r \<in> \<int>" by simp
  have f: "\<lfloor>(145::rat) / 2 + 1 / 2\<rfloor> = 73" by simp
  from average_between_min_max_integers [OF r n i] obtain st where
    "fst (getStatistics None 1000 ?s) = Inr st"
    "average st = Math_round (Fin (sum_list (map val ?d) / of_nat (length ?d)))"
    "stat_min st = Fin (Min (val ` set ?d))"
    "stat_max st = Fin (Max (val ` set ?d))"
    "js_le (stat_min st) (average st)" "js_le (average st) (stat_max st)"
    by blast
  then have "fst (getStatistics None 1000 ?s) = Inr st
        \<and> average st = Fin 73 \<and> stat_min st = Fin 70 \<and> stat_max st = Fin 75
        \<and> js_le (stat_min st) (average st) \<and> js_le (average st) (stat_max st)"
    using f by simp
  then have "\<exists>st. fst (getStatistics None 1000 ?s) = Inr st
        \<and> average st = Fin 73 \<and> stat_min st = Fin 70 \<and> stat_max st = Fin 75
        \<and> js_le (stat_min st) (average st) \<and> js_le (average st) (stat_max st)" by blast
  with r n show ?thesis by simp
qed

subsection \<open>A single sample\<close>

text \<open>
  C4, as stated, fails: no case is set apart for a single sample. The first half is
  empty, its mean is computed as \<open>0 / 0\<close>, and the \<open>NaN\<close> this division by zero yields is
  returned as \<^verbatim>\<open>firstAvg\<close>.
\<close>

theorem single_sample_divides_by_zero_counterexample:
  "length (take (length [72 :: rat] div 2) [72 :: rat]) = 0
   \<and> js_div (reduce_sum (take (length [72 :: rat] div 2) [72]))
        (of_nat (length (take (length [72 :: rat] div 2) [72 :: rat]))) = NaN
   \<and> fst (getStatistics None 1000
         \<lparr>heartRateHistory = Some [\<lparr>val = 72, timestamp = 1, date = 1\<rparr>],
          healthRecords = None, thresholds = None, userSettings = None, faults = []\<rparr>)
     = Inr \<lparr>average = Fin 72, stat_max = Fin 72, stat_min = Fin 72, count = 1,
            trend = ''stable'', firstAvg = Some NaN, secondAvg = Some (Fin 72)\<rparr>"
  by (simp add: getStatistics_nonempty [OF getRecentData_store] Let_def reduce_sum_def
        js_div_def js_sub_def js_gt_def floor_rat_numeral)

text \<open>
  C4, amended. For every single recent sample \<^verbatim>\<open>getStatistics\<close> raises nothing and
  returns the trend \<open>stable\<close>: the mean of the empty first half is \<open>0 / 0 = NaN\<close>, both
  comparisons with it are false, and \<^verbatim>\<open>firstAvg\<close> is returned as \<open>NaN\<close>.
\<close>

theorem single_sample_trend_stable:
  assumes "fst (getRecentData days now s) = Inr [r]"
  shows "fst (getStatistics days now s) =
     Inr \<lparr>average = Math_round (Fin (val r)), stat_max = Fin (val r), stat_min = Fin (val r),
          count = 1, trend = ''stable'', firstAvg = Some NaN,
          secondAvg = Some (Math_round (Fin (val r)))\<rparr>"
  by (simp add: getStatistics_nonempty [OF assms] Let_def reduce_sum_def
        js_div_def js_sub_def js_gt_def)

theorem single_sample_trend_stable_witness:
  "fst (getRecentData (Some 1) 90000000
         \<lparr>heartRateHistory = Some [\<lparr>val = 60, timestamp = 5, date = 5\<rparr>,
                                    \<lparr>val = 180, timestamp = 80000000, date = 80000000\<rparr>],
          healthRecords = None, thresholds = None, userSettings = None, faults = []\<rparr>)
     = Inr [\<lparr>val = 180, timestamp = 80000000, date = 80000000\<rparr>]
   \<and> fst (getStatistics (Some 1) 90000000
         \<lparr>heartRateHistory = Some [\<lparr>val = 60, timestamp = 5, date = 5\<rparr>,
                                    \<lparr>val = 180, timestamp = 80000000, date = 80000000\<rparr>],
          healthRecords = None, thresholds = None, userSettings = None, faults = []\<rparr>)
     = Inr \<lparr>average = Fin 180, stat_max = Fin 180, stat_min = Fin 180,
            count = 1, trend = ''stable'', firstAvg = Some NaN, secondAvg = Some (Fin 180)\<rparr>"
proof -
  let ?s = "\<lparr>heartRateHistory = Some [\<lparr>val = 60, timestamp = 5, date = 5\<rparr>,
                                    \<lparr>val = 180, timestamp = 80000000, date = 80000000\<rparr>],
          healthRecords = None, thresholds = None, userSettings = None, faults = []\<rparr>"
  have r: "fst (getRecentData (Some 1) 90000000 ?s)
             = Inr [\<lparr>val = 180, timestamp = 80000000, date = 80000000\<rparr>]"
    by (simp add: getRecentData_store)
  from single_sample_trend_stable [OF r] r show ?thesis
    by (simp add: floor_rat_numeral)
qed

subsection \<open>The heart-rate check\<close>



subsection \<open>The blood-oxygen check\<close>

text \<open>
  C6, as stated, fails: the claim is made for every thresholds configuration, and the test
  against 90 is nested in the test against \<open>minBloodOxygen\<close>. Once
  \<^verbatim>\<open>updateThresholds\<close>, which validates nothing, has set \<open>minBloodOxygen\<close> to 85, the
  value 87 is below 90 and classified \<open>normal\<close>.
\<close>

theorem checkBloodOxygen_below_90_counterexample:
  "(87::rat) < 90
   \<and> status (checkBloodOxygen
        \<lparr>toString = (\<lambda>v. ''87''), toLocaleDateString = (\<lambda>t. []), toLocaleTimeString = (\<lambda>t. [])\<rparr>
        (updateThresholds
           \<lparr>new_minHeartRate = None, new_maxHeartRate = None, new_minBloodOxygen = Some 85\<rparr>
           initial_thresholds) 87) = ''normal''
   \<and> severity (checkBloodOxygen
        \<lparr>toString = (\<lambda>v. ''87''), toLocaleDateString = (\<lambda>t. []), toLocaleTimeString = (\<lambda>t. [])\<rparr>
        (updateThresholds
           \<lparr>new_minHeartRate = None, new_maxHeartRate = None, new_minBloodOxygen = Some 85\<rparr>
           initial_thresholds) 87) = ''normal''"
  by (simp add: checkBloodOxygen_def updateThresholds_def initial_thresholds_def)

text \<open>
  C6, amended. A value below \<open>minBloodOxygen\<close> is \<open>critical\<close> with severity \<open>danger\<close>
  when it is below 90, and \<open>low\<close> with severity \<open>warning\<close> when it is 90 or more; a value
  that is not below \<open>minBloodOxygen\<close> is \<open>normal\<close>, whether or not it is below 90.
\<close>

theorem checkBloodOxygen_classes:
  "(bloodOxygen < 90 \<and> bloodOxygen < minBloodOxygen th \<longrightarrow>
      status (checkBloodOxygen p th bloodOxygen) = ''critical''
      \<and> severity (checkBloodOxygen p th bloodOxygen) = ''danger'')
   \<and> (90 \<le> bloodOxygen \<and> bloodOxygen < minBloodOxygen th \<longrightarrow>
      status (checkBloodOxygen p th bloodOxygen) = ''low''
      \<and> severity (checkBloodOxygen p th bloodOxygen) = ''warning'')
   \<and> (minBloodOxygen th \<le> bloodOxygen \<longrightarrow>
      status (checkBloodOxygen p th bloodOxygen) = ''normal''
      \<and> severity (checkBloodOxygen p th bloodOxygen) = ''normal'')"
  by (simp add: checkBloodOxygen_def)

theorem checkBloodOxygen_classes_witness:
  "(88::rat) < 90 \<and> 88 < minBloodOxygen initial_thresholds
   \<and> status (checkBloodOxygen
        \<lparr>toString = (\<lambda>v. ''88''), toLocaleDateString = (\<lambda>t. []), toLocaleTimeString = (\<lambda>t. [])\<rparr>
        initial_thresholds 88) = ''critical''
   \<and> severity (checkBloodOxygen
        \<lparr>toString = (\<lambda>v. ''88''), toLocaleDateString = (\<lambda>t. []), toLocaleTimeString = (\<lambda>t. [])\<rparr>
        initial_thresholds 88) = ''danger''
   \<and> (90::rat) \<le> 93 \<and> 93 < minBloodOxygen initial_thresholds
   \<and> status (checkBloodOxygen
        \<lparr>toString = (\<lambda>v. ''93''), toLocaleDateString = (\<lambda>t. []), toLocaleTimeString = (\<lambda>t. [])\<rparr>
        initial_thresholds 93) = ''low''
   \<and> severity (checkBloodOxygen
        \<lparr>toString = (\<lambda>v. ''93''), toLocaleDateString = (\<lambda>t. []), toLocaleTimeString = (\<lambda>t. [])\<rparr>
        initial_thresholds 93) = ''warning''
   \<and> minBloodOxygen initial_thresholds \<le> 97
   \<and> status (checkBloodOxygen
        \<lparr>toString = (\<lambda>v. ''97''), toLocaleDateString = (\<lambda>t. []), toLocaleTimeString = (\<lambda>t. [])\<rparr>
        initial_thresholds 97) = ''normal''"
proof -
  have h: "(88::rat) < 90 \<and> 88 < minBloodOxygen initial_thresholds"
    "(90::rat) \<le> 93 \<and> 93 < minBloodOxygen initial_thresholds"
    "minBloodOxygen initial_thresholds \<le> 97"
    by (simp_all add: initial_thresholds_def)
  note c1 = checkBloodOxygen_classes [of 88 initial_thresholds
    "\<lparr>toString = (\<lambda>v. ''88''), toLocaleDateString = (\<lambda>t. []), toLocaleTimeString = (\<lambda>t. [])\<rparr>"]
  note c2 = checkBloodOxygen_classes [of 93 initial_thresholds
    "\<lparr>toString = (\<lambda>v. ''93''), toLocaleDateString = (\<lambda>t. []), toLocaleTimeString = (\<lambda>t. [])\<rparr>"]
  note c3 = checkBloodOxygen_classes [of 97 initial_thresholds
    "\<lparr>toString = (\<lambda>v. ''97''), toLocaleDateString = (\<lambda>t. []), toLocaleTimeString = (\<lambda>t. [])\<rparr>"]
  from h c1 c2 c3 show ?thesis by blast
qed

subsection \<open>Retention\<close>

text \<open>
  C2. When \<^verbatim>\<open>saveHeartRateRecord\<close> or \<^verbatim>\<open>saveHealthRecord\<close> completes (it returns
  \<open>true\<close>), the stream it has persisted holds only samples whose timestamp is strictly
  greater than \<open>t_cut - 30 days\<close>, \<open>t_cut\<close> being the time the save read for the retention
  bound. A record whose timestamp is \<open>t_cut - 31 days\<close> is therefore not in the stream, and
  no query on the resulting storage returns one, whatever the outcomes of the later storage
  calls.
\<close>

theorem save_keeps_thirty_days:
  "(saveHeartRateRecord heartRate t_stamp t_date t_cut s = (Inr True, s') \<longrightarrow>
      (\<exists>xs. heartRateHistory s' = Some xs
         \<and> (\<forall>r\<in>set xs. t_cut - thirty_days < timestamp r
               \<and> timestamp r \<noteq> t_cut - 31 * 24 * 60 * 60 * 1000))
      \<and> (\<forall>f ys. fst (getHeartRateHistory (s'\<lparr>faults := f\<rparr>)) = Inr ys \<longrightarrow>
            (\<forall>r\<in>set ys. t_cut - thirty_days < timestamp r
               \<and> timestamp r \<noteq> t_cut - 31 * 24 * 60 * 60 * 1000))
      \<and> (\<forall>f days now ys. fst (getRecentData days now (s'\<lparr>faults := f\<rparr>)) = Inr ys \<longrightarrow>
            (\<forall>r\<in>set ys. t_cut - thirty_days < timestamp r
               \<and> timestamp r \<noteq> t_cut - 31 * 24 * 60 * 60 * 1000))
      \<and> (\<forall>f startOfDay ys. fst (getTodayData startOfDay (s'\<lparr>faults := f\<rparr>)) = Inr ys \<longrightarrow>
            (\<forall>r\<in>set ys. t_cut - thirty_days < timestamp r
               \<and> timestamp r \<noteq> t_cut - 31 * 24 * 60 * 60 * 1000))
      \<and> (\<forall>f startDate endDate ys.
            fst (getDataInRange startDate endDate (s'\<lparr>faults := f\<rparr>)) = Inr ys \<longrightarrow>
            (\<forall>r\<in>set ys. t_cut - thirty_days < timestamp r
               \<and> timestamp r \<noteq> t_cut - 31 * 24 * 60 * 60 * 1000)))
   \<and> (saveHealthRecord rcd t_stamp t_date t_cut s = (Inr True, s'') \<longrightarrow>
      (\<exists>xs. healthRecords s'' = Some xs
         \<and> (\<forall>r\<in>set xs. \<exists>t. h_timestamp r = Some t \<and> t_cut - thirty_days < t
               \<and> t \<noteq> t_cut - 31 * 24 * 60 * 60 * 1000))
      \<and> (\<forall>f ys. fst (getHealthRecords (s''\<lparr>faults := f\<rparr>)) = Inr ys \<longrightarrow>
            (\<forall>r\<in>set ys. \<exists>t. h_timestamp r = Some t \<and> t_cut - thirty_days < t
               \<and> t \<noteq> t_cut - 31 * 24 * 60 * 60 * 1000)))"
proof (intro conjI impI)
  assume a: "saveHeartRateRecord heartRate t_stamp t_date t_cut s = (Inr True, s')"
  from saveHeartRateRecord_True [OF a] obtain h where
    h: "heartRateHistory s' =
           Some (filter (\<lambda>r. t_cut - thirty_days < timestamp r)
                   (h @ [\<lparr>val = heartRate, timestamp = t_stamp, date = t_date\<rparr>]))" ..
  let ?xs = "filter (\<lambda>r. t_cut - thirty_days < timestamp r)
                   (h @ [\<lparr>val = heartRate, timestamp = t_stamp, date = t_date\<rparr>])"
  have k: "\<forall>r\<in>set ?xs. t_cut - thirty_days < timestamp r
               \<and> timestamp r \<noteq> t_cut - 31 * 24 * 60 * 60 * 1000"
    by (auto simp: thirty_days_def)
  from h k show "\<exists>xs. heartRateHistory s' = Some xs
         \<and> (\<forall>r\<in>set xs. t_cut - thirty_days < timestamp r
               \<and> timestamp r \<noteq> t_cut - 31 * 24 * 60 * 60 * 1000)" by blast
  have i: "heartRateHistory (s'\<lparr>faults := f\<rparr>) = Some ?xs" for f using h by simp
  show "\<forall>f ys. fst (getHeartRateHistory (s'\<lparr>faults := f\<rparr>)) = Inr ys \<longrightarrow>
            (\<forall>r\<in>set ys. t_cut - thirty_days < timestamp r
               \<and> timestamp r \<noteq> t_cut - 31 * 24 * 60 * 60 * 1000)"
  proof (intro allI impI)
    fix f ys assume "fst (getHeartRateHistory (s'\<lparr>faults := f\<rparr>)) = Inr ys"
    from getHeartRateHistory_subset [OF this] have "set ys \<subseteq> set ?xs" by (simp add: i)
    with k show "\<forall>r\<in>set ys. t_cut - thirty_days < timestamp r
               \<and> timestamp r \<noteq> t_cut - 31 * 24 * 60 * 60 * 1000" by blast
  qed
  show "\<forall>f days now ys. fst (getRecentData days now (s'\<lparr>faults := f\<rparr>)) = Inr ys \<longrightarrow>
            (\<forall>r\<in>set ys. t_cut - thirty_days < timestamp r
               \<and> timestamp r \<noteq> t_cut - 31 * 24 * 60 * 60 * 1000)"
  proof (intro allI impI)
    fix f days now ys assume "fst (getRecentData days now (s'\<lparr>faults := f\<rparr>)) = Inr ys"
    from getRecentData_subset [OF this] have "set ys \<subseteq> set ?xs" by (simp add: i)
    with k show "\<forall>r\<in>set ys. t_cut - thirty_days < timestamp r
               \<and> timestamp r \<noteq> t_cut - 31 * 24 * 60 * 60 * 1000" by blast
  qed
  show "\<forall>f startOfDay ys. fst (getTodayData startOfDay (s'\<lparr>faults := f\<rparr>)) = Inr ys \<longrightarrow>
            (\<forall>r\<in>set ys. t_cut - thirty_days < timestamp r
               \<and> timestamp r \<noteq> t_cut - 31 * 24 * 60 * 60 * 1000)"
  proof (intro allI impI)
    fix f startOfDay ys assume "fst (getTodayData startOfDay (s'\<lparr>faults := f\<rparr>)) = Inr ys"
    from getTodayData_subset [OF this] have "set ys \<subseteq> set ?xs" by (simp add: i)
    with k show "\<forall>r\<in>set ys. t_cut - thirty_days < timestamp r
               \<and> timestamp r \<noteq> t_cut - 31 * 24 * 60 * 60 * 1000" by blast
  qed
  show "\<forall>f startDate endDate ys.
            fst (getDataInRange startDate endDate (s'\<lparr>faults := f\<rparr>)) = Inr ys \<longrightarrow>
            (\<forall>r\<in>set ys. t_cut - thirty_days < timestamp r
               \<and> timestamp r \<noteq> t_cut - 31 * 24 * 60 * 60 * 1000)"
  proof (intro allI impI)
    fix f startDate endDate ys
    assume "fst (getDataInRange startDate endDate (s'\<lparr>faults := f\<rparr>)) = Inr ys"
    from getDataInRange_subset [OF this] have "set ys \<subseteq> set ?xs" by (simp add: i)
    with k show "\<forall>r\<in>set ys. t_cut - thirty_days < timestamp r
               \<and> timestamp r \<noteq> t_cut - 31 * 24 * 60 * 60 * 1000" by blast
  qed
next
  assume a: "saveHealthRecord rcd t_stamp t_date t_cut s = (Inr True, s'')"
  from saveHealthRecord_True [OF a] obtain h where
    h: "healthRecords s'' =
           Some (filter (\<lambda>r. case h_timestamp r of Some t \<Rightarrow> t_cut - thirty_days < t
                                | None \<Rightarrow> False)
                   (h @ [rcd\<lparr>h_timestamp := Some t_stamp, h_date := Some t_date\<rparr>]))" ..
  let ?xs = "filter (\<lambda>r. case h_timestamp r of Some t \<Rightarrow> t_cut - thirty_days < t
                                | None \<Rightarrow> False)
                   (h @ [rcd\<lparr>h_timestamp := Some t_stamp, h_date := Some t_date\<rparr>])"
  have k: "\<forall>r\<in>set ?xs. \<exists>t. h_timestamp r = Some t \<and> t_cut - thirty_days < t
               \<and> t \<noteq> t_cut - 31 * 24 * 60 * 60 * 1000"
    by (auto simp: thirty_days_def split: option.splits)
  from h k show "\<exists>xs. healthRecords s'' = Some xs
         \<and> (\<forall>r\<in>set xs. \<exists>t. h_timestamp r = Some t \<and> t_cut - thirty_days < t
               \<and> t \<noteq> t_cut - 31 * 24 * 60 * 60 * 1000)" by blast
  have i: "healthRecords (s''\<lparr>faults := f\<rparr>) = Some ?xs" for f using h by simp
  show "\<forall>f ys. fst (getHealthRecords (s''\<lparr>faults := f\<rparr>)) = Inr ys \<longrightarrow>
            (\<forall>r\<in>set ys. \<exists>t. h_timestamp r = Some t \<and> t_cut - thirty_days < t
               \<and> t \<noteq> t_cut - 31 * 24 * 60 * 60 * 1000)"
  proof (intro allI impI)
    fix f ys assume "fst (getHealthRecords (s''\<lparr>faults := f\<rparr>)) = Inr ys"
    from getHealthRecords_subset [OF this] have "set ys \<subseteq> set ?xs" by (simp add: i)
    with k show "\<forall>r\<in>set ys. \<exists>t. h_timestamp r = Some t \<and> t_cut - thirty_days < t
               \<and> t \<noteq> t_cut - 31 * 24 * 60 * 60 * 1000" by blast
  qed
qed

theorem save_keeps_thirty_days_witness:
  "saveHeartRateRecord 72 2678400000 2678400000 2678400000
      \<lparr>heartRateHistory = Some [\<lparr>val = 60, timestamp = 0, date = 0\<rparr>],
       healthRecords = None, thresholds = None, userSettings = None, faults = []\<rparr>
     = (Inr True,
        \<lparr>heartRateHistory = Some [\<lparr>val = 72, timestamp = 2678400000, date = 2678400000\<rparr>],
         healthRecords = None, thresholds = None, userSettings = None, faults = []\<rparr>)
   \<and> timestamp \<lparr>val = 60, timestamp = 0, date = 0\<rparr> = 2678400000 - 31 * 24 * 60 * 60 * 1000
   \<and> (\<exists>xs. heartRateHistory
              \<lparr>heartRateHistory = Some [\<lparr>val = 72, timestamp = 2678400000, date = 2678400000\<rparr>],
               healthRecords = None, thresholds = None, userSettings = None, faults = []\<rparr>
            = Some xs
         \<and> (\<forall>r\<in>set xs. 2678400000 - thirty_days < timestamp r
               \<and> timestamp r \<noteq> 2678400000 - 31 * 24 * 60 * 60 * 1000))
   \<and> saveHealthRecord
        \<lparr>h_heartRate = Some 72, h_bloodOxygen = Some 97, h_steps = None, h_calories = None,
         h_distance = None, h_timestamp = None, h_date = None\<rparr>
        2678400000 2678400000 2678400000
        \<lparr>heartRateHistory = None,
         healthRecords = Some [\<lparr>h_heartRate = Some 60, h_bloodOxygen = None, h_steps = None,
                                 h_calories = None, h_distance = None, h_timestamp = Some 0,
                                 h_date = Some 0\<rparr>],
         thresholds = None, userSettings = None, faults = []\<rparr>
     = (Inr True,
        \<lparr>heartRateHistory = None,
         healthRecords = Some [\<lparr>h_heartRate = Some 72, h_bloodOxygen = Some 97, h_steps = None,
                                 h_calories = None, h_distance = None,
                                 h_timestamp = Some 2678400000, h_date = Some 2678400000\<rparr>],
         thresholds = None, userSettings = None, faults = []\<rparr>)
   \<and> (\<exists>xs. healthRecords
              \<lparr>heartRateHistory = None,
               healthRecords = Some [\<lparr>h_heartRate = Some 72, h_bloodOxygen = Some 97,
                                       h_steps = None, h_calories = None, h_distance = None,
                                       h_timestamp = Some 2678400000,
                                       h_date = Some 2678400000\<rparr>],
               thresholds = None, userSettings = None, faults = []\<rparr>
            = Some xs
         \<and> (\<forall>r\<in>set xs. \<exists>t. h_timestamp r = Some t \<and> 2678400000 - thirty_days < t
               \<and> t \<noteq> 2678400000 - 31 * 24 * 60 * 60 * 1000))"
proof -
  let ?s0 = "\<lparr>heartRateHistory = Some [\<lparr>val = 60, timestamp = 0, date = 0\<rparr>],
       healthRecords = None, thresholds = None, userSettings = None, faults = []\<rparr>"
  let ?s1 = "\<lparr>heartRateHistory = Some [\<lparr>val = 72, timestamp = 2678400000, date = 2678400000\<rparr>],
         healthRecords = None, thresholds = None, userSettings = None, faults = []\<rparr>"
  let ?r = "\<lparr>h_heartRate = Some 72, h_bloodOxygen = Some 97, h_steps = None, h_calories = None,
         h_distance = None, h_timestamp = None, h_date = None\<rparr>"
  let ?t0 = "\<lparr>heartRateHistory = None,
         healthRecords = Some [\<lparr>h_heartRate = Some 60, h_bloodOxygen = None, h_steps = None,
                                 h_calories = None, h_distance = None, h_timestamp = Some 0,
                                 h_date = Some 0\<rparr>],
         thresholds = None, userSettings = None, faults = []\<rparr>"
  let ?t1 = "\<lparr>heartRateHistory = None,
         healthRecords = Some [\<lparr>h_heartRate = Some 72, h_bloodOxygen = Some 97, h_steps = None,
                                 h_calories = None, h_distance = None,
                                 h_timestamp = Some 2678400000, h_date = Some 2678400000\<rparr>],
         thresholds = None, userSettings = None, faults = []\<rparr>"
  have a: "saveHeartRateRecord 72 2678400000 2678400000 2678400000 ?s0 = (Inr True, ?s1)"
    by (simp add: saveHeartRateRecord_def getHeartRateHistory_cases setItem_def next_fault_def
          thirty_days_def)
  have b: "saveHealthRecord ?r 2678400000 2678400000 2678400000 ?t0 = (Inr True, ?t1)"
    by (simp add: saveHealthRecord_def getHealthRecords_cases setItem_def next_fault_def
          thirty_days_def)
  have c: "timestamp \<lparr>val = 60, timestamp = 0, date = 0\<rparr> = 2678400000 - 31 * 24 * 60 * 60 * 1000"
    by simp
  note hr = save_keeps_thirty_days [where heartRate = 72 and t_stamp = 2678400000
      and t_date = 2678400000 and t_cut = 2678400000 and s = ?s0 and s' = ?s1]
  note he = save_keeps_thirty_days [where rcd = ?r and t_stamp = 2678400000
      and t_date = 2678400000 and t_cut = 2678400000 and s = ?t0 and s'' = ?t1]
  note h1 = conjunct1 [OF mp [OF conjunct1 [OF hr] a]]
  note h2 = conjunct1 [OF mp [OF conjunct2 [OF he] b]]
  from a c h1 b h2 show ?thesis by (intro conjI)
qed

subsection \<open>The timestamp of a saved record\<close>

text \<open>
  C7, as stated, fails: \<^verbatim>\<open>saveHealthRecord\<close> copies the fields of the record it is given
  and then sets \<^verbatim>\<open>timestamp\<close>, so a record that arrives with the timestamp 5000 is stored
  with the time of the save, 9000.
\<close>

theorem saveHealthRecord_caller_timestamp_counterexample:
  "h_timestamp \<lparr>h_heartRate = Some 72, h_bloodOxygen = None, h_steps = None, h_calories = None,
                h_distance = None, h_timestamp = Some 5000, h_date = Some 5000\<rparr> = Some 5000
   \<and> saveHealthRecord
        \<lparr>h_heartRate = Some 72, h_bloodOxygen = None, h_steps = None, h_calories = None,
         h_distance = None, h_timestamp = Some 5000, h_date = Some 5000\<rparr>
        9000 9001 9002
        \<lparr>heartRateHistory = None, healthRecords = None, thresholds = None,
         userSettings = None, faults = []\<rparr>
     = (Inr True,
        \<lparr>heartRateHistory = None,
         healthRecords = Some [\<lparr>h_heartRate = Some 72, h_bloodOxygen = None, h_steps = None,
                                 h_calories = None, h_distance = None,
                                 h_timestamp = Some 9000, h_date = Some 9001\<rparr>],
         thresholds = None, userSettings = None, faults = []\<rparr>)"
  by (simp add: saveHealthRecord_def getHealthRecords_cases setItem_def next_fault_def
        thirty_days_def)

text \<open>
  C7, amended. A save always stamps the record with the time it reads at the save:
  \<^verbatim>\<open>saveHeartRateRecord\<close> takes the value alone, and \<^verbatim>\<open>saveHealthRecord\<close> overwrites the
  \<^verbatim>\<open>timestamp\<close> and the \<^verbatim>\<open>date\<close> of the record it is given, present or not. After a save
  that completes, the last record of the stream is the new one with that timestamp
  (provided the timestamp is inside the retention window of the same save).
\<close>

theorem save_stamps_current_time:
  "(saveHeartRateRecord heartRate t_stamp t_date t_cut s = (Inr True, s')
      \<and> t_cut - thirty_days < t_stamp \<longrightarrow>
      (\<exists>xs. heartRateHistory s' =
          Some (xs @ [\<lparr>val = heartRate, timestamp = t_stamp, date = t_date\<rparr>])))
   \<and> (saveHealthRecord rcd t_stamp t_date t_cut s = (Inr True, s'')
      \<and> t_cut - thirty_days < t_stamp \<longrightarrow>
      (\<exists>xs. healthRecords s'' =
          Some (xs @ [rcd\<lparr>h_timestamp := Some t_stamp, h_date := Some t_date\<rparr>])))"
proof (intro conjI impI)
  assume a: "saveHeartRateRecord heartRate t_stamp t_date t_cut s = (Inr True, s')
      \<and> t_cut - thirty_days < t_stamp"
  from saveHeartRateRecord_True [OF conjunct1 [OF a]] obtain h where
    "heartRateHistory s' =
           Some (filter (\<lambda>r. t_cut - thirty_days < timestamp r)
                   (h @ [\<lparr>val = heartRate, timestamp = t_stamp, date = t_date\<rparr>]))" ..
  with a have "heartRateHistory s' =
      Some (filter (\<lambda>r. t_cut - thirty_days < timestamp r) h
              @ [\<lparr>val = heartRate, timestamp = t_stamp, date = t_date\<rparr>])" by simp
  then show "\<exists>xs. heartRateHistory s' =
          Some (xs @ [\<lparr>val = heartRate, timestamp = t_stamp, date = t_date\<rparr>])" ..
next
  assume a: "saveHealthRecord rcd t_stamp t_date t_cut s = (Inr True, s'')
      \<and> t_cut - thirty_days < t_stamp"
  from saveHealthRecord_True [OF conjunct1 [OF a]] obtain h where
    "healthRecords s'' =
           Some (filter (\<lambda>r. case h_timestamp r of Some t \<Rightarrow> t_cut - thirty_days < t
                                | None \<Rightarrow> False)
                   (h @ [rcd\<lparr>h_timestamp := Some t_stamp, h_date := Some t_date\<rparr>]))" ..
  with a have "healthRecords s'' =
      Some (filter (\<lambda>r. case h_timestamp r of Some t \<Rightarrow> t_cut - thirty_days < t
                                | None \<Rightarrow> False) h
              @ [rcd\<lparr>h_timestamp := Some t_stamp, h_date := Some t_date\<rparr>])" by simp
  then show "\<exists>xs. healthRecords s'' =
          Some (xs @ [rcd\<lparr>h_timestamp := Some t_stamp, h_date := Some t_date\<rparr>])" ..
qed

theorem save_stamps_current_time_witness:
  "saveHealthRecord
        \<lparr>h_heartRate = Some 72, h_bloodOxygen = None, h_steps = None, h_calories = None,
         h_distance = None, h_timestamp = Some 5000, h_date = Some 5000\<rparr>
        9000 9001 9002
        \<lparr>heartRateHistory = None, healthRecords = None, thresholds = None,
         userSettings = None, faults = []\<rparr>
     = (Inr True,
        \<lparr>heartRateHistory = None,
         healthRecords = Some [\<lparr>h_heartRate = Some 72, h_bloodOxygen = None, h_steps = None,
                                 h_calories = None, h_distance = None,
                                 h_timestamp = Some 9000, h_date = Some 9001\<rparr>],
         thresholds = None, userSettings = None, faults = []\<rparr>)
   \<and> 9002 - thirty_days < 9000
   \<and> (\<exists>xs. healthRecords
              \<lparr>heartRateHistory = None,
               healthRecords = Some [\<lparr>h_heartRate = Some 72, h_bloodOxygen = None,
                                       h_steps = None, h_calories = None, h_distance = None,
                                       h_timestamp = Some 9000, h_date = Some 9001\<rparr>],
               thresholds = None, userSettings = None, faults = []\<rparr>
          = Some (xs @ [\<lparr>h_heartRate = Some 72, h_bloodOxygen = None, h_steps = None,
                         h_calories = None, h_distance = None, h_timestamp = Some 5000,
                         h_date = Some 5000\<rparr>\<lparr>h_timestamp := Some 9000, h_date := Some 9001\<rparr>]))
   \<and> saveHeartRateRecord 72 9000 9001 9002
        \<lparr>heartRateHistory = None, healthRecords = None, thresholds = None,
         userSettings = None, faults = []\<rparr>
     = (Inr True,
        \<lparr>heartRateHistory = Some [\<lparr>val = 72, timestamp = 9000, date = 9001\<rparr>],
         healthRecords = None, thresholds = None, userSettings = None, faults = []\<rparr>)
   \<and> (\<exists>xs. heartRateHistory
              \<lparr>heartRateHistory = Some [\<lparr>val = 72, timestamp = 9000, date = 9001\<rparr>],
               healthRecords = None, thresholds = None, userSettings = None, faults = []\<rparr>
          = Some (xs @ [\<lparr>val = 72, timestamp = 9000, date = 9001\<rparr>]))"
proof -
  let ?e = "\<lparr>heartRateHistory = None, healthRecords = None, thresholds = None,
         userSettings = None, faults = []\<rparr>"
  let ?r = "\<lparr>h_heartRate = Some 72, h_bloodOxygen = None, h_steps = None, h_calories = None,
         h_distance = None, h_timestamp = Some 5000, h_date = Some 5000\<rparr>"
  let ?e1 = "\<lparr>heartRateHistory = None,
         healthRecords = Some [\<lparr>h_heartRate = Some 72, h_bloodOxygen = None, h_steps = None,
                                 h_calories = None, h_distance = None,
                                 h_timestamp = Some 9000, h_date = Some 9001\<rparr>],
         thresholds = None, userSettings = None, faults = []\<rparr>"
  let ?e2 = "\<lparr>heartRateHistory = Some [\<lparr>val = 72, timestamp = 9000, date = 9001\<rparr>],
         healthRecords = None, thresholds = None, userSettings = None, faults = []\<rparr>"
  have a: "saveHealthRecord ?r 9000 9001 9002 ?e = (Inr True, ?e1)"
    by (simp add: saveHealthRecord_def getHealthRecords_cases setItem_def next_fault_def
          thirty_days_def)
  have b: "saveHeartRateRecord 72 9000 9001 9002 ?e = (Inr True, ?e2)"
    by (simp add: saveHeartRateRecord_def getHeartRateHistory_cases setItem_def next_fault_def
          thirty_days_def)
  have c: "9002 - thirty_days < 9000" by (simp add: thirty_days_def)
  note he = save_stamps_current_time [where rcd = ?r and t_stamp = 9000 and t_date = 9001
      and t_cut = 9002 and s = ?e and s'' = ?e1]
  note hr = save_stamps_current_time [where heartRate = 72 and t_stamp = 9000 and t_date = 9001
      and t_cut = 9002 and s = ?e and s' = ?e2]
  note h1 = mp [OF conjunct2 [OF he] conjI [OF a c]]
  note h2 = mp [OF conjunct1 [OF hr] conjI [OF b c]]
  from a c h1 b h2 show ?thesis by (intro conjI)
qed

subsection \<open>Failures of the storage\<close>

text \<open>
  C8. When the write to the storage fails, \<^verbatim>\<open>saveHeartRateRecord\<close> and
  \<^verbatim>\<open>saveHealthRecord\<close> return \<open>false\<close> and leave the stream as it was. When the
  storage call of another operation fails, a read returns the empty list (the statistics
  their zero state, the thresholds and the settings their defaults) and a write or a clear
  returns \<open>false\<close>. No operation of the storage service ever ends in an exception.
\<close>

theorem persistence_failures_are_caught:
  "(faults s = b # True # fs \<longrightarrow>
      fst (saveHeartRateRecord heartRate t_stamp t_date t_cut s) = Inr False
      \<and> heartRateHistory (snd (saveHeartRateRecord heartRate t_stamp t_date t_cut s))
          = heartRateHistory s
      \<and> fst (saveHealthRecord rcd t_stamp t_date t_cut s) = Inr False
      \<and> healthRecords (snd (saveHealthRecord rcd t_stamp t_date t_cut s)) = healthRecords s)
   \<and> (faults s = True # fs \<longrightarrow>
      fst (getHeartRateHistory s) = Inr []
      \<and> fst (getHealthRecords s) = Inr []
      \<and> fst (getRecentData days now s) = Inr []
      \<and> fst (getTodayData startOfDay s) = Inr []
      \<and> fst (getDataInRange startDate endDate s) = Inr []
      \<and> fst (getStatistics days now s) = Inr zero_statistics
      \<and> fst (getThresholds s) = Inr default_thresholds
      \<and> fst (getUserSettings s) = Inr default_settings
      \<and> fst (saveThresholds th s) = Inr False
      \<and> fst (saveUserSettings settings s) = Inr False
      \<and> fst (clearAllData s) = Inr False)
   \<and> \<not> isl (fst (saveHeartRateRecord heartRate t_stamp t_date t_cut s))
   \<and> \<not> isl (fst (saveHealthRecord rcd t_stamp t_date t_cut s))
   \<and> \<not> isl (fst (getHeartRateHistory s))
   \<and> \<not> isl (fst (getHealthRecords s))
   \<and> \<not> isl (fst (getRecentData days now s))
   \<and> \<not> isl (fst (getTodayData startOfDay s))
   \<and> \<not> isl (fst (getDataInRange startDate endDate s))
   \<and> \<not> isl (fst (getStatistics days now s))
   \<and> \<not> isl (fst (getThresholds s))
   \<and> \<not> isl (fst (getUserSettings s))
   \<and> \<not> isl (fst (saveThresholds th s))
   \<and> \<not> isl (fst (saveUserSettings settings s))
   \<and> \<not> isl (fst (clearAllData s))"
proof (intro conjI impI)
  assume w: "faults s = b # True # fs"
  show "fst (saveHeartRateRecord heartRate t_stamp t_date t_cut s) = Inr False"
    using w by (cases b) (simp_all add: saveHeartRateRecord_def getHeartRateHistory_cases
        setItem_def next_fault_def Let_def)
  show "heartRateHistory (snd (saveHeartRateRecord heartRate t_stamp t_date t_cut s))
          = heartRateHistory s"
    using w by (cases b) (simp_all add: saveHeartRateRecord_def getHeartRateHistory_cases
        setItem_def next_fault_def Let_def)
  show "fst (saveHealthRecord rcd t_stamp t_date t_cut s) = Inr False"
    using w by (cases b) (simp_all add: saveHealthRecord_def getHealthRecords_cases
        setItem_def next_fault_def Let_def)
  show "healthRecords (snd (saveHealthRecord rcd t_stamp t_date t_cut s)) = healthRecords s"
    using w by (cases b) (simp_all add: saveHealthRecord_def getHealthRecords_cases
        setItem_def next_fault_def Let_def)
next
  assume r: "faults s = True # fs"
  show "fst (getHeartRateHistory s) = Inr []"
    using r by (simp add: getHeartRateHistory_cases)
  show "fst (getHealthRecords s) = Inr []"
    using r by (simp add: getHealthRecords_cases)
  show "fst (getRecentData days now s) = Inr []"
    using r by (simp add: getRecentData_def getHeartRateHistory_cases)
  show "fst (getTodayData startOfDay s) = Inr []"
    using r by (simp add: getTodayData_def getHeartRateHistory_cases)
  show "fst (getDataInRange startDate endDate s) = Inr []"
    using r by (simp add: getDataInRange_def getHeartRateHistory_cases)
  show "fst (getStatistics days now s) = Inr zero_statistics"
    using r by (simp add: getStatistics_def getRecentData_def getHeartRateHistory_cases)
  show "fst (getThresholds s) = Inr default_thresholds"
    using r by (simp add: getThresholds_def getItem_def next_fault_def)
  show "fst (getUserSettings s) = Inr default_settings"
    using r by (simp add: getUserSettings_def getItem_def next_fault_def)
  show "fst (saveThresholds th s) = Inr False"
    using r by (simp add: saveThresholds_def setItem_def next_fault_def)
  show "fst (saveUserSettings settings s) = Inr False"
    using r by (simp add: saveUserSettings_def setItem_def next_fault_def)
  show "fst (clearAllData s) = Inr False"
    using r by (simp add: clearAllData_def multiRemove_def next_fault_def)
next
  obtain h s1 where g: "getHeartRateHistory s = (Inr h, s1)"
    using getHeartRateHistory_Inr by blast
  show "\<not> isl (fst (saveHeartRateRecord heartRate t_stamp t_date t_cut s))"
    by (simp add: saveHeartRateRecord_def g setItem_def next_fault_def Let_def
          split: list.splits bool.splits)
  show "\<not> isl (fst (getHeartRateHistory s))" by (simp add: g)
  show "\<not> isl (fst (getRecentData days now s))" by (simp add: getRecentData_def g Let_def)
  show "\<not> isl (fst (getTodayData startOfDay s))" by (simp add: getTodayData_def g)
  show "\<not> isl (fst (getDataInRange startDate endDate s))" by (simp add: getDataInRange_def g)
  obtain ys s2 where d: "getRecentData days now s = (Inr ys, s2)"
    using getRecentData_Inr by blast
  show "\<not> isl (fst (getStatistics days now s))"
    by (simp add: getStatistics_def d Let_def)
  obtain h' s3 where g': "getHealthRecords s = (Inr h', s3)"
    using getHealthRecords_Inr by blast
  show "\<not> isl (fst (saveHealthRecord rcd t_stamp t_date t_cut s))"
    by (simp add: saveHealthRecord_def g' setItem_def next_fault_def Let_def
          split: list.splits bool.splits)
  show "\<not> isl (fst (getHealthRecords s))" by (simp add: g')
  show "\<not> isl (fst (getThresholds s))"
    by (simp add: getThresholds_def getItem_def next_fault_def split: list.splits bool.splits)
  show "\<not> isl (fst (getUserSettings s))"
    by (simp add: getUserSettings_def getItem_def next_fault_def split: list.splits bool.splits)
  show "\<not> isl (fst (saveThresholds th s))"
    by (simp add: saveThresholds_def setItem_def next_fault_def split: list.splits bool.splits)
  show "\<not> isl (fst (saveUserSettings settings s))"
    by (simp add: saveUserSettings_def setItem_def next_fault_def
          split: list.splits bool.splits)
  show "\<not> isl (fst (clearAllData s))"
    by (simp add: clearAllData_def multiRemove_def next_fault_def
          split: list.splits bool.splits)
qed

theorem persistence_failures_are_caught_witness:
  "faults \<lparr>heartRateHistory = Some [\<lparr>val = 60, timestamp = 5, date = 5\<rparr>],
           healthRecords = None, thresholds = None, userSettings = None,
           faults = [False, True]\<rparr> = False # True # []
   \<and> fst (saveHeartRateRecord 72 10 11 12
        \<lparr>heartRateHistory = Some [\<lparr>val = 60, timestamp = 5, date = 5\<rparr>],
         healthRecords = None, thresholds = None, userSettings = None,
         faults = [False, True]\<rparr>) = Inr False
   \<and> heartRateHistory (snd (saveHeartRateRecord 72 10 11 12
        \<lparr>heartRateHistory = Some [\<lparr>val = 60, timestamp = 5, date = 5\<rparr>],
         healthRecords = None, thresholds = None, userSettings = None,
         faults = [False, True]\<rparr>)) = Some [\<lparr>val = 60, timestamp = 5, date = 5\<rparr>]
   \<and> faults \<lparr>heartRateHistory = Some [\<lparr>val = 60, timestamp = 5, date = 5\<rparr>],
           healthRecords = None, thresholds = None, userSettings = None,
           faults = [True]\<rparr> = True # []
   \<and> fst (getHeartRateHistory
        \<lparr>heartRateHistory = Some [\<lparr>val = 60, timestamp = 5, date = 5\<rparr>],
         healthRecords = None, thresholds = None, userSettings = None,
         faults = [True]\<rparr>) = Inr []"
proof -
  let ?w = "\<lparr>heartRateHistory = Some [\<lparr>val = 60, timestamp = 5, date = 5\<rparr>],
           healthRecords = None, thresholds = None, userSettings = None,
           faults = [False, True]\<rparr>"
  let ?r = "\<lparr>heartRateHistory = Some [\<lparr>val = 60, timestamp = 5, date = 5\<rparr>],
           healthRecords = None, thresholds = None, userSettings = None,
           faults = [True]\<rparr>"
  have a: "faults ?w = False # True # []" by simp
  have b: "faults ?r = True # []" by simp
  note tw = persistence_failures_are_caught [where s = ?w and b = False and fs = "[]"
      and heartRate = 72 and t_stamp = 10 and t_date = 11 and t_cut = 12]
  note tr = persistence_failures_are_caught [where s = ?r and fs = "[]"]
  note w1 = mp [OF conjunct1 [OF tw] a]
  note r1 = mp [OF conjunct1 [OF conjunct2 [OF tr]] b]
  from w1 have w2: "fst (saveHeartRateRecord 72 10 11 12 ?w) = Inr False"
    and w3: "heartRateHistory (snd (saveHeartRateRecord 72 10 11 12 ?w))
               = Some [\<lparr>val = 60, timestamp = 5, date = 5\<rparr>]"
    by simp_all
  from r1 have r2: "fst (getHeartRateHistory ?r) = Inr []" by simp
  from a w2 w3 b r2 show ?thesis by (intro conjI)
qed

subsection \<open>Clearing the data\<close>

text \<open>
  C10. \<^verbatim>\<open>clearAllData\<close> leaves the stored thresholds and user settings as they are, so
  \<^verbatim>\<open>getThresholds\<close> and \<^verbatim>\<open>getUserSettings\<close> return after it what they returned before it
  (under the same outcome of their storage call). When it succeeds the heart-rate history
  and the health records are removed, when it fails they are unchanged; the four keys are
  different strings.
\<close>

theorem clearAllData_keeps_thresholds_and_settings:
  "thresholds (snd (clearAllData s)) = thresholds s
   \<and> userSettings (snd (clearAllData s)) = userSettings s
   \<and> fst (getThresholds ((snd (clearAllData s))\<lparr>faults := f\<rparr>))
       = fst (getThresholds (s\<lparr>faults := f\<rparr>))
   \<and> fst (getUserSettings ((snd (clearAllData s))\<lparr>faults := f\<rparr>))
       = fst (getUserSettings (s\<lparr>faults := f\<rparr>))
   \<and> (fst (clearAllData s) = Inr True \<longrightarrow>
        heartRateHistory (snd (clearAllData s)) = None
        \<and> healthRecords (snd (clearAllData s)) = None)
   \<and> (fst (clearAllData s) = Inr False \<longrightarrow>
        heartRateHistory (snd (clearAllData s)) = heartRateHistory s
        \<and> healthRecords (snd (clearAllData s)) = healthRecords s)
   \<and> distinct (map STORAGE_KEYS [HEART_RATE_HISTORY, HEALTH_RECORDS, THRESHOLDS, USER_SETTINGS])"
proof -
  have t: "thresholds (snd (clearAllData s)) = thresholds s"
    by (simp add: clearAllData_def multiRemove_def next_fault_def
          split: list.splits bool.splits)
  have u: "userSettings (snd (clearAllData s)) = userSettings s"
    by (simp add: clearAllData_def multiRemove_def next_fault_def
          split: list.splits bool.splits)
  have gt: "fst (getThresholds ((snd (clearAllData s))\<lparr>faults := f\<rparr>))
       = fst (getThresholds (s\<lparr>faults := f\<rparr>))"
    using t by (simp add: getThresholds_def getItem_def next_fault_def
          split: list.splits bool.splits)
  have gu: "fst (getUserSettings ((snd (clearAllData s))\<lparr>faults := f\<rparr>))
       = fst (getUserSettings (s\<lparr>faults := f\<rparr>))"
    using u by (simp add: getUserSettings_def getItem_def next_fault_def
          split: list.splits bool.splits)
  have c: "fst (clearAllData s) = Inr True \<longrightarrow>
        heartRateHistory (snd (clearAllData s)) = None
        \<and> healthRecords (snd (clearAllData s)) = None"
    by (simp add: clearAllData_def multiRemove_def next_fault_def
          split: list.splits bool.splits)
  have n: "fst (clearAllData s) = Inr False \<longrightarrow>
        heartRateHistory (snd (clearAllData s)) = heartRateHistory s
        \<and> healthRecords (snd (clearAllData s)) = healthRecords s"
    by (simp add: clearAllData_def multiRemove_def next_fault_def
          split: list.splits bool.splits)
  have d: "distinct (map STORAGE_KEYS
             [HEART_RATE_HISTORY, HEALTH_RECORDS, THRESHOLDS, USER_SETTINGS])"
    by simp
  from t u gt gu c n d show ?thesis by (intro conjI)
qed

theorem clearAllData_keeps_thresholds_and_settings_witness:
  "clearAllData
      \<lparr>heartRateHistory = Some [\<lparr>val = 60, timestamp = 5, date = 5\<rparr>],
       healthRecords = Some [],
       thresholds = Some \<lparr>th_min = 50, th_max = 120, th_minBloodOxygen = None\<rparr>,
       userSettings = Some \<lparr>notifications = False, autoSave = True, theme = ''dark''\<rparr>,
       faults = []\<rparr>
     = (Inr True,
        \<lparr>heartRateHistory = None, healthRecords = None,
         thresholds = Some \<lparr>th_min = 50, th_max = 120, th_minBloodOxygen = None\<rparr>,
         userSettings = Some \<lparr>notifications = False, autoSave = True, theme = ''dark''\<rparr>,
         faults = []\<rparr>)
   \<and> fst (getThresholds
        \<lparr>heartRateHistory = None, healthRecords = None,
         thresholds = Some \<lparr>th_min = 50, th_max = 120, th_minBloodOxygen = None\<rparr>,
         userSettings = Some \<lparr>notifications = False, autoSave = True, theme = ''dark''\<rparr>,
         faults = []\<rparr>)
     = Inr \<lparr>th_min = 50, th_max = 120, th_minBloodOxygen = None\<rparr>
   \<and> fst (getUserSettings
        \<lparr>heartRateHistory = None, healthRecords = None,
         thresholds = Some \<lparr>th_min = 50, th_max = 120, th_minBloodOxygen = None\<rparr>,
         userSettings = Some \<lparr>notifications = False, autoSave = True, theme = ''dark''\<rparr>,
         faults = []\<rparr>)
     = Inr \<lparr>notifications = False, autoSave = True, theme = ''dark''\<rparr>"
proof -
  let ?s = "\<lparr>heartRateHistory = Some [\<lparr>val = 60, timestamp = 5, date = 5\<rparr>],
       healthRecords = Some [],
       thresholds = Some \<lparr>th_min = 50, th_max = 120, th_minBloodOxygen = None\<rparr>,
       userSettings = Some \<lparr>notifications = False, autoSave = True, theme = ''dark''\<rparr>,
       faults = []\<rparr>"
  let ?s' = "\<lparr>heartRateHistory = None, healthRecords = None,
         thresholds = Some \<lparr>th_min = 50, th_max = 120, th_minBloodOxygen = None\<rparr>,
         userSettings = Some \<lparr>notifications = False, autoSave = True, theme = ''dark''\<rparr>,
         faults = []\<rparr>"
  have c: "clearAllData ?s = (Inr True, ?s')"
    by (simp add: clearAllData_def multiRemove_def next_fault_def)
  have b: "fst (getThresholds (?s\<lparr>faults := []\<rparr>))
             = Inr \<lparr>th_min = 50, th_max = 120, th_minBloodOxygen = None\<rparr>"
    by (simp add: getThresholds_def getItem_def next_fault_def)
  have b': "fst (getUserSettings (?s\<lparr>faults := []\<rparr>))
             = Inr \<lparr>notifications = False, autoSave = True, theme = ''dark''\<rparr>"
    by (simp add: getUserSettings_def getItem_def next_fault_def)
  note k = clearAllData_keeps_thresholds_and_settings [where s = ?s and f = "[]"]
  from k c have "fst (getThresholds (?s'\<lparr>faults := []\<rparr>)) = fst (getThresholds (?s\<lparr>faults := []\<rparr>))"
    by simp
  with b have g: "fst (getThresholds ?s')
     = Inr \<lparr>th_min = 50, th_max = 120, th_minBloodOxygen = None\<rparr>" by simp
  from k c have "fst (getUserSettings (?s'\<lparr>faults := []\<rparr>)) = fst (getUserSettings (?s\<lparr>faults := []\<rparr>))"
    by simp
  with b' have g': "fst (getUserSettings ?s')
     = Inr \<lparr>notifications = False, autoSave = True, theme = ''dark''\<rparr>" by simp
  from c g g' show ?thesis by (intro conjI)
qed

subsection \<open>The CSV export and its reading back\<close>

text \<open>
  C9. For every non-empty list of \<open>N\<close> samples the export has exactly \<open>N + 1\<close> lines, the
  header \<^verbatim>\<open>Date,Time,Heart Rate (BPM)\<close> and one row per sample in the order of the input,
  and reading it back gives the (date, time, value) triples of the samples. The export
  quotes nothing, so this is stated for renderings of dates, times and numbers that hold
  neither a comma nor a line break, which is what the \<^verbatim>\<open>en-US\<close> renderings and the
  rendering of a number are.
\<close>

theorem convertToCSV_lines_and_roundtrip:
  assumes "data \<noteq> []"
    and "\<forall>r\<in>set data.
           newline \<notin> set (toLocaleDateString p (timestamp r))
           \<and> CHR '','' \<notin> set (toLocaleDateString p (timestamp r))
           \<and> newline \<notin> set (toLocaleTimeString p (timestamp r))
           \<and> CHR '','' \<notin> set (toLocaleTimeString p (timestamp r))
           \<and> newline \<notin> set (toString p (val r))
           \<and> CHR '','' \<notin> set (toString p (val r))"
  shows "split_on newline (convertToCSV p data)
           = ''Date,Time,Heart Rate (BPM)'' # map (csv_row p) data
     \<and> length (split_on newline (convertToCSV p data)) = length data + 1
     \<and> spec_parseCSV (convertToCSV p data)
         = Some (map (\<lambda>r. (toLocaleDateString p (timestamp r),
                             toLocaleTimeString p (timestamp r),
                             toString p (val r))) data)"
proof -
  have h: "newline \<notin> set ''Date,Time,Heart Rate (BPM)''"
    by (simp add: newline_def)
  have n: "\<forall>l\<in>set (map (csv_row p) data). newline \<notin> set l"
    using assms(2) by (auto simp: csv_row_def Let_def newline_def)
  from assms(1) have ne: "map (csv_row p) data \<noteq> []" by simp
  have l: "split_on newline (convertToCSV p data)
           = ''Date,Time,Heart Rate (BPM)'' # map (csv_row p) data"
    unfolding convertToCSV_def Let_def
    using split_on_piece [OF h, of "join [newline] (map (csv_row p) data)"]
      split_on_join [OF ne n]
    by simp
  have r: "\<forall>r\<in>set data. spec_parse_row (csv_row p r)
             = Some (toLocaleDateString p (timestamp r), toLocaleTimeString p (timestamp r),
                     toString p (val r))"
  proof
    fix r assume "r \<in> set data"
    with assms(2) show "spec_parse_row (csv_row p r)
             = Some (toLocaleDateString p (timestamp r), toLocaleTimeString p (timestamp r),
                     toString p (val r))"
      unfolding csv_row_def Let_def by (intro spec_parse_row_fields) auto
  qed
  have "spec_parseCSV (convertToCSV p data)
         = Some (map (\<lambda>r. (toLocaleDateString p (timestamp r),
                             toLocaleTimeString p (timestamp r),
                             toString p (val r))) data)"
    unfolding spec_parseCSV_def l using spec_parse_rows_map [OF r] by simp
  with l show ?thesis by simp
qed

theorem convertToCSV_lines_and_roundtrip_witness:
  "[\<lparr>val = 72, timestamp = 1, date = 1\<rparr>, \<lparr>val = 80, timestamp = 2, date = 2\<rparr>] \<noteq> []
   \<and> split_on newline (convertToCSV
        \<lparr>toString = (\<lambda>v. if v = 72 then ''72'' else ''80''),
         toLocaleDateString = (\<lambda>t. ''11/2/2026''),
         toLocaleTimeString = (\<lambda>t. if t = 1 then ''8:25:00 AM'' else ''8:25:03 AM'')\<rparr>
        [\<lparr>val = 72, timestamp = 1, date = 1\<rparr>, \<lparr>val = 80, timestamp = 2, date = 2\<rparr>])
     = [''Date,Time,Heart Rate (BPM)'', ''11/2/2026,8:25:00 AM,72'', ''11/2/2026,8:25:03 AM,80'']
   \<and> length (split_on newline (convertToCSV
        \<lparr>toString = (\<lambda>v. if v = 72 then ''72'' else ''80''),
         toLocaleDateString = (\<lambda>t. ''11/2/2026''),
         toLocaleTimeString = (\<lambda>t. if t = 1 then ''8:25:00 AM'' else ''8:25:03 AM'')\<rparr>
        [\<lparr>val = 72, timestamp = 1, date = 1\<rparr>, \<lparr>val = 80, timestamp = 2, date = 2\<rparr>]))
     = 3
   \<and> spec_parseCSV (convertToCSV
        \<lparr>toString = (\<lambda>v. if v = 72 then ''72'' else ''80''),
         toLocaleDateString = (\<lambda>t. ''11/2/2026''),
         toLocaleTimeString = (\<lambda>t. if t = 1 then ''8:25:00 AM'' else ''8:25:03 AM'')\<rparr>
        [\<lparr>val = 72, timestamp = 1, date = 1\<rparr>, \<lparr>val = 80, timestamp = 2, date = 2\<rparr>])
     = Some [(''11/2/2026'', ''8:25:00 AM'', ''72''), (''11/2/2026'', ''8:25:03 AM'', ''80'')]"
proof -
  let ?p = "\<lparr>toString = (\<lambda>v::rat. if v = 72 then ''72'' else ''80''),
         toLocaleDateString = (\<lambda>t::int. ''11/2/2026''),
         toLocaleTimeString = (\<lambda>t::int. if t = 1 then ''8:25:00 AM'' else ''8:25:03 AM'')\<rparr>"
  let ?d = "[\<lparr>val = 72, timestamp = 1, date = 1\<rparr>, \<lparr>val = 80, timestamp = 2, date = 2\<rparr>]"
  have ne: "?d \<noteq> []" by simp
  have f: "\<forall>r\<in>set ?d.
           newline \<notin> set (toLocaleDateString ?p (timestamp r))
           \<and> CHR '','' \<notin> set (toLocaleDateString ?p (timestamp r))
           \<and> newline \<notin> set (toLocaleTimeString ?p (timestamp r))
           \<and> CHR '','' \<notin> set (toLocaleTimeString ?p (timestamp r))
           \<and> newline \<notin> set (toString ?p (val r))
           \<and> CHR '','' \<notin> set (toString ?p (val r))"
    by (simp add: newline_def)
  from convertToCSV_lines_and_roundtrip [OF ne f] ne show ?thesis
    by (simp add: csv_row_def)
qed

end
